theory Spec2Isabelle
  imports Complex_Main "HOL-Library.Multiset" "HOL-Library.AList"
begin

section \<open>Floating-point values\<close>

text \<open>
  The engine computes on NumPy/pandas float64 series. A value is modelled as a real number
  or one of the three special values of IEEE arithmetic; pandas' missing value is \<open>NaN\<close>.
  The arithmetic below follows IEEE for the special values (\<open>x / 0\<close> is an infinity or
  \<open>NaN\<close>, \<open>inf - inf\<close> and \<open>0 * inf\<close> are \<open>NaN\<close>, every comparison with \<open>NaN\<close> is
  false) and is exact on finite values: rounding, overflow and the sign of zero are not
  modelled.
\<close>

datatype fl = Fin real | PInf | NInf | NaN

fun is_nan :: "fl \<Rightarrow> bool" where
  "is_nan NaN = True"
| "is_nan _ = False"


fun fneg :: "fl \<Rightarrow> fl" where
  "fneg (Fin x) = Fin (- x)"
| "fneg PInf = NInf"
| "fneg NInf = PInf"
| "fneg NaN = NaN"

fun fadd :: "fl \<Rightarrow> fl \<Rightarrow> fl" where
  "fadd (Fin a) (Fin b) = Fin (a + b)"
| "fadd NaN _ = NaN"
| "fadd _ NaN = NaN"
| "fadd PInf NInf = NaN"
| "fadd NInf PInf = NaN"
| "fadd PInf _ = PInf"
| "fadd _ PInf = PInf"
| "fadd NInf _ = NInf"
| "fadd _ NInf = NInf"

definition fsub :: "fl \<Rightarrow> fl \<Rightarrow> fl" where
  "fsub a b = fadd a (fneg b)"

text \<open>The sign of a real times an infinity; \<open>0 * inf\<close> is \<open>NaN\<close>.\<close>

definition sgn_inf :: "real \<Rightarrow> fl" where
  "sgn_inf a = (if 0 < a then PInf else if a < 0 then NInf else NaN)"

fun fmul :: "fl \<Rightarrow> fl \<Rightarrow> fl" where
  "fmul (Fin a) (Fin b) = Fin (a * b)"
| "fmul NaN _ = NaN"
| "fmul _ NaN = NaN"
| "fmul (Fin a) PInf = sgn_inf a"
| "fmul (Fin a) NInf = sgn_inf (- a)"
| "fmul PInf (Fin b) = sgn_inf b"
| "fmul NInf (Fin b) = sgn_inf (- b)"
| "fmul PInf PInf = PInf"
| "fmul NInf NInf = PInf"
| "fmul PInf NInf = NInf"
| "fmul NInf PInf = NInf"

fun fdiv :: "fl \<Rightarrow> fl \<Rightarrow> fl" where
  "fdiv (Fin a) (Fin b) = (if b = 0 then sgn_inf a else Fin (a / b))"
| "fdiv NaN _ = NaN"
| "fdiv _ NaN = NaN"
| "fdiv (Fin a) _ = Fin 0"
| "fdiv PInf (Fin b) = (if 0 \<le> b then PInf else NInf)"
| "fdiv NInf (Fin b) = (if 0 \<le> b then NInf else PInf)"
| "fdiv _ _ = NaN"

fun fabs :: "fl \<Rightarrow> fl" where
  "fabs (Fin x) = Fin \<bar>x\<bar>"
| "fabs NaN = NaN"
| "fabs _ = PInf"

fun fsqrt :: "fl \<Rightarrow> fl" where
  "fsqrt (Fin x) = (if 0 \<le> x then Fin (sqrt x) else NaN)"
| "fsqrt PInf = PInf"
| "fsqrt _ = NaN"

text \<open>\<open>flt a b\<close> is \<open>a < b\<close>, false as soon as one side is \<open>NaN\<close>.\<close>

fun flt :: "fl \<Rightarrow> fl \<Rightarrow> bool" where
  "flt (Fin a) (Fin b) = (a < b)"
| "flt NaN _ = False"
| "flt _ NaN = False"
| "flt _ NInf = False"
| "flt PInf _ = False"
| "flt _ _ = True"

definition fgt :: "fl \<Rightarrow> fl \<Rightarrow> bool" where
  "fgt a b = flt b a"

text \<open>\<open>fne a b\<close> is \<open>a != b\<close>: true when one side is \<open>NaN\<close>.\<close>

definition fne :: "fl \<Rightarrow> fl \<Rightarrow> bool" where
  "fne a b = (is_nan a \<or> is_nan b \<or> a \<noteq> b)"

text \<open>
  \<open>x ** e\<close> for a real exponent \<open>e > 0\<close>, the only use in the metrics (the exponent is
  \<open>365 / days\<close> with \<open>days \<ge> 1\<close>). NumPy gives \<open>NaN\<close> for a negative base with a
  fractional exponent. The power of a finite base is the exact real power here; in float64
  a large one overflows to \<open>inf\<close>.
\<close>

fun fpow :: "fl \<Rightarrow> real \<Rightarrow> fl" where
  "fpow (Fin b) e = (if 0 < b then Fin (b powr e) else if b = 0 then Fin 0 else NaN)"
| "fpow PInf e = PInf"
| "fpow _ e = NaN"

section \<open>Series operations of pandas\<close>

text \<open>\<open>Series.fillna(0)\<close> and \<open>Series.dropna()\<close>.\<close>

definition fillna0 :: "fl list \<Rightarrow> fl list" where
  "fillna0 xs = map (\<lambda>x. if is_nan x then Fin 0 else x) xs"

definition dropna :: "fl list \<Rightarrow> fl list" where
  "dropna xs = filter (\<lambda>x. \<not> is_nan x) xs"

text \<open>\<open>Series.shift(1)\<close>: the first entry is missing, the last value falls off.\<close>

definition shift1 :: "fl list \<Rightarrow> fl list" where
  "shift1 xs = (if xs = [] then [] else NaN # butlast xs)"

text \<open>\<open>Series.diff()\<close> is \<open>s - s.shift(1)\<close>.\<close>

definition diff1 :: "fl list \<Rightarrow> fl list" where
  "diff1 xs = map2 fsub xs (shift1 xs)"

text \<open>\<open>Series.pct_change()\<close> is \<open>s / s.shift(1) - 1\<close> on a series without missing values.\<close>

definition pct_change :: "fl list \<Rightarrow> fl list" where
  "pct_change xs = map (\<lambda>q. fsub q (Fin 1)) (map2 fdiv xs (shift1 xs))"

text \<open>
  \<open>Series.cumprod()\<close>: a missing entry stays missing and is skipped by the running product.
\<close>

fun cumprod_from :: "fl \<Rightarrow> fl list \<Rightarrow> fl list" where
  "cumprod_from acc [] = []"
| "cumprod_from acc (x # xs) =
     (if is_nan x then NaN # cumprod_from acc xs
      else fmul acc x # cumprod_from (fmul acc x) xs)"

definition cumprod :: "fl list \<Rightarrow> fl list" where
  "cumprod xs = cumprod_from (Fin 1) xs"

text \<open>Reductions, applied in the source to series without missing values.\<close>

definition fsum :: "fl list \<Rightarrow> fl" where
  "fsum xs = foldl fadd (Fin 0) xs"

definition fprod :: "fl list \<Rightarrow> fl" where
  "fprod xs = foldl fmul (Fin 1) xs"

section \<open>The backtest engine: signal-to-return conversion\<close>

text \<open>
  A frame returned by \<open>strategy.calculate\<close>, reduced to the two columns the engine reads:
  one row per bar with its close price and its signal (an integer column).
\<close>

record frow =
  close :: real
  signal :: int

type_synonym frame = "frow list"

record engine =
  fee_rate :: real
  slippage :: real
  initial_capital :: real

definition total_cost :: "engine \<Rightarrow> real" where
  "total_cost eng = fee_rate eng + slippage eng"

definition closes :: "frame \<Rightarrow> fl list" where
  "closes df = map (\<lambda>r. Fin (close r)) df"

definition signals :: "frame \<Rightarrow> fl list" where
  "signals df = map (\<lambda>r. Fin (real_of_int (signal r))) df"

text \<open>\<open>position_changes = signals.diff().fillna(0).abs()\<close>\<close>

definition position_changes :: "frame \<Rightarrow> fl list" where
  "position_changes df = map fabs (fillna0 (diff1 (signals df)))"

text \<open>\<open>returns * signals.shift(1)\<close>, the first operand of the strategy return.\<close>

definition gross_returns :: "frame \<Rightarrow> fl list" where
  "gross_returns df = map2 fmul (pct_change (closes df)) (shift1 (signals df))"

text \<open>
  \<open>strategy_returns = (returns * signals.shift(1)) - (position_changes * self.total_cost)\<close>,
  the first assignment of the variable.
\<close>

definition strategy_returns_raw :: "engine \<Rightarrow> frame \<Rightarrow> fl list" where
  "strategy_returns_raw eng df =
     map2 fsub (gross_returns df)
       (map (\<lambda>p. fmul p (Fin (total_cost eng))) (position_changes df))"

text \<open>\<open>strategy_returns = strategy_returns.fillna(0)\<close>, the series used from there on.\<close>

definition strategy_returns :: "engine \<Rightarrow> frame \<Rightarrow> fl list" where
  "strategy_returns eng df = fillna0 (strategy_returns_raw eng df)"

text \<open>\<open>equity_curve = self.initial_capital * (1 + strategy_returns).cumprod()\<close>\<close>

definition equity_curve :: "engine \<Rightarrow> frame \<Rightarrow> fl list" where
  "equity_curve eng df =
     map (fmul (Fin (initial_capital eng)))
       (cumprod (map (fadd (Fin 1)) (strategy_returns eng df)))"

section \<open>The metrics calculator\<close>

datatype error = ValueError | IndexError | KeyError | TypeError | OverflowError

record metrics =
  total_return :: fl
  annual_return :: fl
  sharpe_ratio :: fl
  max_drawdown :: fl
  win_rate :: fl
  total_trades :: int
  profit_factor :: fl
  avg_trade_return :: fl

text \<open>
  The record returned for an empty return series; \<open>profit_factor\<close> and
  \<open>avg_trade_return\<close> take the dataclass defaults \<open>0.0\<close>.
\<close>

definition zero_metrics :: metrics where
  "zero_metrics =
     \<lparr>total_return = Fin 0, annual_return = Fin 0, sharpe_ratio = Fin 0,
      max_drawdown = Fin 0, win_rate = Fin 0, total_trades = 0,
      profit_factor = Fin 0, avg_trade_return = Fin 0\<rparr>"

definition fmean :: "fl list \<Rightarrow> fl" where
  "fmean xs = fdiv (fsum xs) (Fin (real (length xs)))"

text \<open>
  \<open>Series.std()\<close>: the sample standard deviation (\<open>ddof = 1\<close>), missing for fewer than
  two observations. On finite values it is the exact real value here; the float64 result
  is that value up to rounding, so it can be a tiny positive number where the exact value
  is 0 (a constant non-zero series) and \<open>inf\<close> where the squares overflow. Statements
  below that compare the volatility with 0 are therefore made on the guard
  \<open>sharpe_guard\<close>, for whatever volatility was computed, or on series where the float
  computation is exact.
\<close>

definition fstd :: "fl list \<Rightarrow> fl" where
  "fstd xs =
     (if length xs \<le> 1 then NaN
      else fsqrt (fdiv (fsum (map (\<lambda>x. fmul (fsub (fmean xs) x) (fsub (fmean xs) x)) xs))
                   (Fin (real (length xs - 1)))))"

text \<open>\<open>np.maximum\<close> and the minimum of \<open>ndarray.min()\<close> propagate \<open>NaN\<close>.\<close>

definition fmax_np :: "fl \<Rightarrow> fl \<Rightarrow> fl" where
  "fmax_np a b = (if is_nan a \<or> is_nan b then NaN else if flt a b then b else a)"

definition fmin_np :: "fl \<Rightarrow> fl \<Rightarrow> fl" where
  "fmin_np a b = (if is_nan a \<or> is_nan b then NaN else if flt b a then b else a)"

text \<open>\<open>np.maximum.accumulate\<close>\<close>

fun accumulate_from :: "fl \<Rightarrow> fl list \<Rightarrow> fl list" where
  "accumulate_from m [] = []"
| "accumulate_from m (x # xs) = fmax_np m x # accumulate_from (fmax_np m x) xs"

fun maximum_accumulate :: "fl list \<Rightarrow> fl list" where
  "maximum_accumulate [] = []"
| "maximum_accumulate (x # xs) = x # accumulate_from x xs"

text \<open>\<open>ndarray.min()\<close> raises \<open>ValueError\<close> on an empty array.\<close>

fun array_min :: "fl list \<Rightarrow> error + fl" where
  "array_min [] = Inl ValueError"
| "array_min (x # xs) = Inr (foldl fmin_np x xs)"

text \<open>\<open>drawdown = (equity - peak) / peak\<close>\<close>

definition drawdown :: "fl list \<Rightarrow> fl list" where
  "drawdown equity = map2 (\<lambda>e p. fdiv (fsub e p) p) equity (maximum_accumulate equity)"

definition volatility :: "fl list \<Rightarrow> fl" where
  "volatility rs = fmul (fstd rs) (Fin (sqrt 365))"

text \<open>\<open>int((position_changes != 0).sum())\<close> with \<open>position_changes = signals.diff().fillna(0)\<close>\<close>

definition count_trades :: "fl list \<Rightarrow> int" where
  "count_trades sigs = int (length (filter (\<lambda>d. fne d (Fin 0)) (fillna0 (diff1 sigs))))"

text \<open>\<open>sharpe_ratio = annual_return / volatility if volatility > 0 else 0\<close>\<close>

definition sharpe_guard :: "fl \<Rightarrow> fl \<Rightarrow> fl" where
  "sharpe_guard ar vol = (if fgt vol (Fin 0) then fdiv ar vol else Fin 0)"

definition calculate_metrics :: "fl list \<Rightarrow> fl list \<Rightarrow> fl list option \<Rightarrow> error + metrics" where
  "calculate_metrics returns equity sigs =
     (let rs = dropna returns in
      if length rs = 0 then Inr zero_metrics
      else
        let tr = fsub (fprod (map (fadd (Fin 1)) rs)) (Fin 1);
            days = length rs;
            ar = (if 0 < days \<and> fgt tr (Fin (- 1))
                  then fsub (fpow (fadd (Fin 1) tr) (365 / real days)) (Fin 1)
                  else Fin 0);
            vol = volatility rs;
            sharpe = sharpe_guard ar vol
        in case array_min (drawdown equity) of
             Inl e \<Rightarrow> Inl e
           | Inr mdd \<Rightarrow>
               let trades = (case sigs of
                               Some s \<Rightarrow> count_trades s
                             | None \<Rightarrow> int (length (filter (\<lambda>r. fne r (Fin 0)) rs)));
                   winning_returns = filter (\<lambda>r. fgt r (Fin 0)) rs;
                   losing_returns = filter (\<lambda>r. flt r (Fin 0)) rs;
                   total_trading_days = length winning_returns + length losing_returns;
                   wr = (if 0 < total_trading_days
                         then Fin (real (length winning_returns) / real total_trading_days)
                         else Fin 0);
                   total_gains = (if 0 < length winning_returns then fsum winning_returns else Fin 0);
                   total_losses = (if 0 < length losing_returns then fabs (fsum losing_returns) else Fin 0);
                   pf = (if fgt total_losses (Fin 0) then fdiv total_gains total_losses else PInf);
                   avg = (if list_ex (\<lambda>r. fne r (Fin 0)) rs
                          then fmean (filter (\<lambda>r. fne r (Fin 0)) rs) else Fin 0)
               in Inr \<lparr>total_return = tr, annual_return = ar, sharpe_ratio = sharpe,
                       max_drawdown = mdd, win_rate = wr, total_trades = trades,
                       profit_factor = pf, avg_trade_return = avg\<rparr>)"

section \<open>Bars, strategies and a single run\<close>

text \<open>
  An OHLCV bar with its timestamp. The fields \<open>open\<close> and \<open>close\<close> of the source are
  \<open>opn\<close> and \<open>bclose\<close> here (\<open>close\<close> is the column of a frame row above).
\<close>

record bar =
  ts :: int
  opn :: real
  high :: real
  low :: real
  bclose :: real
  volume :: real

type_synonym bars = "bar list"

text \<open>
  Python values that occur as strategy parameters and as cells of a summary row: ints,
  floats, bools and strings. A string is kept as the literal text and the values formatted
  into it (the strategy names are f-strings over the periods).
\<close>

datatype pval = PInt int | PFloat fl | PBool bool | PStr string "pval list"

text \<open>A Python \<open>dict\<close> with string keys, in insertion order.\<close>

type_synonym pdict = "(string \<times> pval) list"

text \<open>
  A strategy instance as the engine sees it: its \<open>name\<close> and \<open>params\<close> properties and
  its \<open>calculate\<close> method. An exception raised by \<open>calculate\<close>, or a returned frame
  without a \<open>close\<close> or \<open>signal\<close> column, is an error value.
\<close>

record strategy =
  name :: pval
  params :: pdict
  calculate :: "bars \<Rightarrow> error + frame"

definition calculate_hodl_return :: "bars \<Rightarrow> fl" where
  "calculate_hodl_return df =
     (if length df < 2 then Fin 0
      else fsub (fdiv (Fin (bclose (last df))) (Fin (bclose (hd df)))) (Fin 1))"

record backtest_result =
  strategy_name :: pval
  res_params :: pdict
  res_metrics :: metrics
  hodl_return :: fl
  res_equity_curve :: "fl list"
  res_signals :: "fl list"
  res_df :: frame

definition run :: "engine \<Rightarrow> bars \<Rightarrow> strategy \<Rightarrow> error + backtest_result" where
  "run eng df strat =
     (case calculate strat df of
        Inl e \<Rightarrow> Inl e
      | Inr result_df \<Rightarrow>
          (case calculate_metrics (strategy_returns eng result_df) (equity_curve eng result_df)
                  (Some (signals result_df)) of
             Inl e \<Rightarrow> Inl e
           | Inr m \<Rightarrow>
               Inr \<lparr>strategy_name = name strat, res_params = params strat, res_metrics = m,
                     hodl_return = calculate_hodl_return df,
                     res_equity_curve = equity_curve eng result_df,
                     res_signals = signals result_df, res_df = result_df\<rparr>))"

section \<open>Indicators\<close>

text \<open>Sequencing of computations that may raise.\<close>

definition ebind :: "error + 'a \<Rightarrow> ('a \<Rightarrow> error + 'b) \<Rightarrow> error + 'b" where
  "ebind m f = (case m of Inl e \<Rightarrow> Inl e | Inr x \<Rightarrow> f x)"

text \<open>
  The numeric value of a period. Periods are ints or floats (a bool counts as 0 or 1); a
  string or a non-finite float as a period is not covered by the model of the indicators
  and is reported as \<open>TypeError\<close>.
\<close>

fun num_of :: "pval \<Rightarrow> error + real" where
  "num_of (PInt n) = Inr (real_of_int n)"
| "num_of (PFloat (Fin x)) = Inr x"
| "num_of (PBool b) = Inr (if b then 1 else 0)"
| "num_of _ = Inl TypeError"

text \<open>
  The threshold as the right operand of \<open>df["rsi"] > self.rsi_threshold\<close>: any number,
  also a non-finite float (the comparison is then false or true as in IEEE); comparing
  with a string raises \<open>TypeError\<close>.
\<close>

fun threshold_of :: "pval \<Rightarrow> error + fl" where
  "threshold_of (PInt n) = Inr (Fin (real_of_int n))"
| "threshold_of (PFloat x) = Inr x"
| "threshold_of (PBool b) = Inr (Fin (if b then 1 else 0))"
| "threshold_of (PStr s vs) = Inl TypeError"

text \<open>
  The window of \<open>Series.rolling\<close>: pandas raises \<open>ValueError\<close> unless it is an integer
  (not a bool) that is 0 or greater.
\<close>

fun window_of :: "pval \<Rightarrow> error + nat" where
  "window_of (PInt n) = (if n < 0 then Inl ValueError else Inr (nat n))"
| "window_of _ = Inl ValueError"

text \<open>Python truthiness, for \<open>if self.use_trend_filter:\<close>.\<close>

fun truthy :: "pval \<Rightarrow> bool" where
  "truthy (PInt n) = (n \<noteq> 0)"
| "truthy (PFloat x) = (x \<noteq> Fin 0)"
| "truthy (PBool b) = b"
| "truthy (PStr s vs) = (s \<noteq> [] \<or> vs \<noteq> [])"

text \<open>
  \<open>close.ewm(span=period, adjust=False).mean()\<close>: the first value is the first close,
  then \<open>y[t] = (1 - alpha) * y[t-1] + alpha * x[t]\<close> with \<open>alpha = 2 / (span + 1)\<close>; pandas
  raises \<open>ValueError\<close> for a span below 1.
\<close>

fun ewm_from :: "real \<Rightarrow> real \<Rightarrow> real list \<Rightarrow> real list" where
  "ewm_from alpha prev [] = []"
| "ewm_from alpha prev (x # xs) =
     ((1 - alpha) * prev + alpha * x) # ewm_from alpha ((1 - alpha) * prev + alpha * x) xs"

fun ewm_mean :: "real \<Rightarrow> real list \<Rightarrow> real list" where
  "ewm_mean alpha [] = []"
| "ewm_mean alpha (x # xs) = x # ewm_from alpha x xs"

definition ema :: "real list \<Rightarrow> pval \<Rightarrow> error + real list" where
  "ema cl period =
     ebind (num_of period) (\<lambda>span.
       if span < 1 then Inl ValueError else Inr (ewm_mean (2 / (span + 1)) cl))"

text \<open>
  \<open>Series.rolling(window=w).mean()\<close>: missing until \<open>w\<close> observations are available (and
  everywhere for \<open>w = 0\<close>), then the mean of the last \<open>w\<close> values; a window that holds a
  missing value has fewer than \<open>w\<close> observations.
\<close>

definition rolling_mean :: "nat \<Rightarrow> fl list \<Rightarrow> fl list" where
  "rolling_mean w xs =
     map (\<lambda>t. if w = 0 \<or> Suc t < w then NaN
               else let win = take w (drop (Suc t - w) xs)
                    in if list_ex is_nan win then NaN else fdiv (fsum win) (Fin (real w)))
       [0..<length xs]"

text \<open>
  \<open>rsi\<close>: \<open>delta = close.diff()\<close>, \<open>gain = delta.where(delta > 0, 0)\<close>,
  \<open>loss = -delta.where(delta < 0, 0)\<close>, \<open>rs = avg_gain / avg_loss\<close>,
  \<open>100 - (100 / (1 + rs))\<close>.
\<close>

definition rsi :: "real list \<Rightarrow> pval \<Rightarrow> error + fl list" where
  "rsi cl period =
     ebind (window_of period) (\<lambda>w.
       let delta = diff1 (map Fin cl);
           gain = map (\<lambda>d. if fgt d (Fin 0) then d else Fin 0) delta;
           loss = map (\<lambda>d. fneg (if flt d (Fin 0) then d else Fin 0)) delta;
           avg_gain = rolling_mean w gain;
           avg_loss = rolling_mean w loss;
           rs = map2 fdiv avg_gain avg_loss
       in Inr (map (\<lambda>r. fsub (Fin 100) (fdiv (Fin 100) (fadd (Fin 1) r))) rs))"

section \<open>The crossover strategies\<close>

text \<open>
  The attributes of a \<open>SimpleEMACrossStrategy\<close> instance, extended by those of an
  \<open>EMACrossStrategy\<close> instance.
\<close>

record simple_ema_cross =
  short_period :: pval
  long_period :: pval

record ema_cross = simple_ema_cross +
  trend_period :: pval
  rsi_period :: pval
  rsi_threshold :: pval
  use_trend_filter :: pval
  use_rsi_filter :: pval

text \<open>
  The base signal: 0, then 1 where \<open>ema_short > ema_long\<close>, then -1 where
  \<open>ema_short < ema_long\<close>.
\<close>

definition base_signal :: "real list \<Rightarrow> real list \<Rightarrow> int list" where
  "base_signal es el = map2 (\<lambda>s l. if s < l then - 1 else if s > l then 1 else 0) es el"

text \<open>\<open>uptrend = df["close"] > df["ema_trend"]\<close> and \<open>rsi_ok = df["rsi"] > self.rsi_threshold\<close>\<close>

definition uptrend :: "real list \<Rightarrow> real list \<Rightarrow> bool list" where
  "uptrend cl et = map2 (\<lambda>c e. c > e) cl et"

definition rsi_ok :: "fl list \<Rightarrow> fl \<Rightarrow> bool list" where
  "rsi_ok rv thr = map (\<lambda>r. fgt r thr) rv"

text \<open>\<open>df.loc[(df["signal"] == 1) & ~ok, "signal"] = 0\<close>\<close>

definition suppress_long :: "int list \<Rightarrow> bool list \<Rightarrow> int list" where
  "suppress_long sig ok = map2 (\<lambda>s p. if s = 1 \<and> \<not> p then 0 else s) sig ok"

definition mk_frame :: "real list \<Rightarrow> int list \<Rightarrow> frame" where
  "mk_frame cl sig = map2 (\<lambda>c s. \<lparr>close = c, signal = s\<rparr>) cl sig"

text \<open>\<open>EMACrossStrategy.calculate\<close>\<close>

definition ema_cross_calculate :: "ema_cross \<Rightarrow> bars \<Rightarrow> error + frame" where
  "ema_cross_calculate self df =
     (let cl = map bclose df in
      ebind (ema cl (short_period self)) (\<lambda>ema_short.
      ebind (ema cl (long_period self)) (\<lambda>ema_long.
      ebind (if truthy (use_trend_filter self) then ema cl (trend_period self) else Inr []) (\<lambda>ema_trend.
      ebind (if truthy (use_rsi_filter self) then rsi cl (rsi_period self) else Inr []) (\<lambda>rsi_col.
        let sig0 = base_signal ema_short ema_long;
            sig1 = (if truthy (use_trend_filter self)
                    then suppress_long sig0 (uptrend cl ema_trend) else sig0)
        in if truthy (use_rsi_filter self)
           then ebind (threshold_of (rsi_threshold self)) (\<lambda>thr.
                  Inr (mk_frame cl (suppress_long sig1 (rsi_ok rsi_col thr))))
           else Inr (mk_frame cl sig1))))))"

text \<open>\<open>SimpleEMACrossStrategy.calculate\<close>\<close>

definition simple_ema_cross_calculate :: "simple_ema_cross \<Rightarrow> bars \<Rightarrow> error + frame" where
  "simple_ema_cross_calculate self df =
     (let cl = map bclose df in
      ebind (ema cl (short_period self)) (\<lambda>ema_short.
      ebind (ema cl (long_period self)) (\<lambda>ema_long.
        Inr (mk_frame cl (base_signal ema_short ema_long)))))"

text \<open>
  The constructors. A class is called with keyword arguments; an unexpected keyword
  raises \<open>TypeError\<close>, a missing one takes its default.
\<close>

type_synonym strategy_class = "pdict \<Rightarrow> error + strategy"

definition ema_cross_defaults :: ema_cross where
  "ema_cross_defaults =
     \<lparr>short_period = PInt 5, long_period = PInt 20, trend_period = PInt 60,
      rsi_period = PInt 14, rsi_threshold = PInt 50,
      use_trend_filter = PBool True, use_rsi_filter = PBool True\<rparr>"

fun ema_cross_init :: "pdict \<Rightarrow> ema_cross \<Rightarrow> error + ema_cross" where
  "ema_cross_init [] self = Inr self"
| "ema_cross_init ((k, v) # kwargs) self =
     (if k = ''short_period'' then ema_cross_init kwargs (self\<lparr>short_period := v\<rparr>)
      else if k = ''long_period'' then ema_cross_init kwargs (self\<lparr>long_period := v\<rparr>)
      else if k = ''trend_period'' then ema_cross_init kwargs (self\<lparr>trend_period := v\<rparr>)
      else if k = ''rsi_period'' then ema_cross_init kwargs (self\<lparr>rsi_period := v\<rparr>)
      else if k = ''rsi_threshold'' then ema_cross_init kwargs (self\<lparr>rsi_threshold := v\<rparr>)
      else if k = ''use_trend_filter'' then ema_cross_init kwargs (self\<lparr>use_trend_filter := v\<rparr>)
      else if k = ''use_rsi_filter'' then ema_cross_init kwargs (self\<lparr>use_rsi_filter := v\<rparr>)
      else Inl TypeError)"

text \<open>The \<open>name\<close> and \<open>params\<close> properties; \<open>params\<close> has no entry for \<open>rsi_period\<close>.\<close>

definition ema_cross_strategy :: "ema_cross \<Rightarrow> strategy" where
  "ema_cross_strategy self =
     \<lparr>name = PStr ''ema_cross'' [short_period self, long_period self],
      params = [(''short_period'', short_period self), (''long_period'', long_period self),
                (''trend_period'', trend_period self), (''rsi_threshold'', rsi_threshold self),
                (''use_trend_filter'', use_trend_filter self),
                (''use_rsi_filter'', use_rsi_filter self)],
      calculate = ema_cross_calculate self\<rparr>"

definition EMACrossStrategy :: strategy_class where
  "EMACrossStrategy kwargs =
     ebind (ema_cross_init kwargs ema_cross_defaults) (\<lambda>self. Inr (ema_cross_strategy self))"

definition simple_ema_cross_defaults :: simple_ema_cross where
  "simple_ema_cross_defaults = \<lparr>short_period = PInt 5, long_period = PInt 20\<rparr>"

fun simple_ema_cross_init :: "pdict \<Rightarrow> simple_ema_cross \<Rightarrow> error + simple_ema_cross" where
  "simple_ema_cross_init [] self = Inr self"
| "simple_ema_cross_init ((k, v) # kwargs) self =
     (if k = ''short_period'' then simple_ema_cross_init kwargs (self\<lparr>short_period := v\<rparr>)
      else if k = ''long_period'' then simple_ema_cross_init kwargs (self\<lparr>long_period := v\<rparr>)
      else Inl TypeError)"

definition simple_ema_cross_strategy :: "simple_ema_cross \<Rightarrow> strategy" where
  "simple_ema_cross_strategy self =
     \<lparr>name = PStr ''simple_ema'' [short_period self, long_period self],
      params = [(''short_period'', short_period self), (''long_period'', long_period self)],
      calculate = simple_ema_cross_calculate self\<rparr>"

definition SimpleEMACrossStrategy :: strategy_class where
  "SimpleEMACrossStrategy kwargs =
     ebind (simple_ema_cross_init kwargs simple_ema_cross_defaults)
       (\<lambda>self. Inr (simple_ema_cross_strategy self))"

section \<open>Grid search\<close>

text \<open>\<open>BacktestMetrics.to_dict\<close>\<close>

definition metrics_to_dict :: "metrics \<Rightarrow> pdict" where
  "metrics_to_dict m =
     [(''total_return'', PFloat (total_return m)), (''annual_return'', PFloat (annual_return m)),
      (''sharpe_ratio'', PFloat (sharpe_ratio m)), (''max_drawdown'', PFloat (max_drawdown m)),
      (''win_rate'', PFloat (win_rate m)), (''total_trades'', PInt (total_trades m)),
      (''profit_factor'', PFloat (profit_factor m)),
      (''avg_trade_return'', PFloat (avg_trade_return m))]"

text \<open>
  Building a dict from items in order: a key seen before keeps its place and takes the new
  value.
\<close>

definition dict_of :: "pdict \<Rightarrow> pdict" where
  "dict_of kvs = foldl (\<lambda>d (k, v). AList.update k v d) [] kvs"

text \<open>
  \<open>BacktestResult.summary\<close>:
  \<open>{"strategy": ..., **self.params, **self.metrics.to_dict(), "hodl_return": ...}\<close>
\<close>

definition summary :: "backtest_result \<Rightarrow> pdict" where
  "summary r =
     dict_of ((''strategy'', strategy_name r) # res_params r @ metrics_to_dict (res_metrics r)
              @ [(''hodl_return'', PFloat (hodl_return r))])"

text \<open>
  The loop of \<open>grid_search\<close> over the combinations: a combination whose construction or run
  raises is skipped.
\<close>

fun collect_results ::
  "engine \<Rightarrow> bars \<Rightarrow> strategy_class \<Rightarrow> string list \<Rightarrow> pval list list \<Rightarrow> pdict list" where
  "collect_results eng df cls param_names [] = []"
| "collect_results eng df cls param_names (vals # rest) =
     (case cls (dict_of (zip param_names vals)) of
        Inl e \<Rightarrow> collect_results eng df cls param_names rest
      | Inr strat \<Rightarrow>
          (case run eng df strat of
             Inl e \<Rightarrow> collect_results eng df cls param_names rest
           | Inr result \<Rightarrow> summary result # collect_results eng df cls param_names rest))"

text \<open>
  \<open>pd.DataFrame(results)\<close> for a list of dicts: one column per key, in the order of first
  appearance, and a missing cell where a row lacks the key. A table is the list of its
  rows, each row with all columns; the coercion of a column to one dtype is not modelled.
\<close>

definition columns_of :: "pdict list \<Rightarrow> string list" where
  "columns_of results = rev (remdups (rev (concat (map (map fst) results))))"

definition data_frame :: "pdict list \<Rightarrow> pdict list" where
  "data_frame results =
     map (\<lambda>r. map (\<lambda>c. (c, case map_of r c of Some v \<Rightarrow> v | None \<Rightarrow> PFloat NaN))
                 (columns_of results)) results"

text \<open>
  \<open>results_df.sort_values(sort_by, ascending=False)\<close> is a call into pandas with the default
  \<open>kind='quicksort'\<close>. The order in which that sort leaves rows of equal key is the
  library's and is not fixed by the source, so the sort is a parameter \<open>sort_values\<close> of the
  model, taking the column name and the table.
\<close>

definition grid_search ::
  "(string \<Rightarrow> pdict list \<Rightarrow> pdict list) \<Rightarrow> engine \<Rightarrow> bars \<Rightarrow> strategy_class
     \<Rightarrow> (string \<times> pval list) list \<Rightarrow> string \<Rightarrow> pdict list" where
  "grid_search sort_values eng df cls param_grid sort_by =
     (let results = collect_results eng df cls (map fst param_grid)
                      (product_lists (map snd param_grid))
      in if results = [] then []
         else let results_df = data_frame results
              in if sort_by \<in> set (columns_of results) then sort_values sort_by results_df
                 else results_df)"

text \<open>
  One sort to run the examples with: descending in the column, missing values last, rows
  of equal key in input order. The value of a cell as a sort key:
\<close>

fun cell_key :: "pval \<Rightarrow> fl" where
  "cell_key (PFloat x) = x"
| "cell_key (PInt n) = Fin (real_of_int n)"
| "cell_key (PBool b) = Fin (if b then 1 else 0)"
| "cell_key (PStr s vs) = NaN"

definition col_key :: "string \<Rightarrow> pdict \<Rightarrow> fl" where
  "col_key c row = (case map_of row c of Some v \<Rightarrow> cell_key v | None \<Rightarrow> NaN)"

text \<open>\<open>key_ge a b\<close>: the key \<open>a\<close> may stand before the key \<open>b\<close>.\<close>

definition key_ge :: "fl \<Rightarrow> fl \<Rightarrow> bool" where
  "key_ge a b = (is_nan b \<or> (\<not> is_nan a \<and> \<not> flt a b))"

fun insort_before :: "('a \<Rightarrow> fl) \<Rightarrow> 'a \<Rightarrow> 'a list \<Rightarrow> 'a list" where
  "insort_before k x [] = [x]"
| "insort_before k x (y # ys) =
     (if key_ge (k x) (k y) then x # y # ys else y # insort_before k x ys)"

definition sort_values_stable :: "string \<Rightarrow> pdict list \<Rightarrow> pdict list" where
  "sort_values_stable c tbl = foldr (insort_before (col_key c)) tbl []"

section \<open>Walk-forward\<close>

text \<open>
  \<open>int(x)\<close> truncates towards zero. In \<open>int(len(df) * train_ratio)\<close> the product is taken
  exactly here; float64 rounds it, which moves the split by one bar when the exact product
  lies within rounding of an integer: for three bars and the float64 nearest to 1/3 the
  exact product is just below 1 and splits at 0, while its float64 rounding is 1.0 and the
  source splits at 1. For \<open>train_ratio = 0.5\<close> float64 computes the product exactly.
\<close>

definition py_int :: "real \<Rightarrow> int" where
  "py_int x = (if 0 \<le> x then \<lfloor>x\<rfloor> else \<lceil>x\<rceil>)"

text \<open>\<open>df.iloc[:k]\<close> and \<open>df.iloc[k:]\<close>; a negative \<open>k\<close> counts from the end.\<close>

definition iloc_to :: "int \<Rightarrow> 'a list \<Rightarrow> 'a list" where
  "iloc_to k xs = (if k < 0 then take (nat (int (length xs) + k)) xs else take (nat k) xs)"

definition iloc_from :: "int \<Rightarrow> 'a list \<Rightarrow> 'a list" where
  "iloc_from k xs = (if k < 0 then drop (nat (int (length xs) + k)) xs else drop (nat k) xs)"

text \<open>
  \<open>int(v) if isinstance(v, (float, np.floating)) and v == int(v) else v\<close>; \<open>int\<close> raises on
  \<open>NaN\<close> and on an infinity.
\<close>

fun int_if_integral :: "pval \<Rightarrow> error + pval" where
  "int_if_integral (PFloat (Fin x)) =
     Inr (if x = real_of_int (py_int x) then PInt (py_int x) else PFloat (Fin x))"
| "int_if_integral (PFloat NaN) = Inl ValueError"
| "int_if_integral (PFloat PInf) = Inl OverflowError"
| "int_if_integral (PFloat NInf) = Inl OverflowError"
| "int_if_integral v = Inr v"

text \<open>The dict comprehension over \<open>best_row.items()\<close>, keeping the keys of \<open>param_grid\<close>.\<close>

fun best_params_of :: "pdict \<Rightarrow> string list \<Rightarrow> error + pdict" where
  "best_params_of [] param_names = Inr []"
| "best_params_of ((k, v) # row) param_names =
     (if k \<in> set param_names
      then ebind (int_if_integral v) (\<lambda>v'.
           ebind (best_params_of row param_names) (\<lambda>rest. Inr ((k, v') # rest)))
      else best_params_of row param_names)"

text \<open>\<open>float(best_row[c])\<close>\<close>

fun to_float :: "pval \<Rightarrow> error + fl" where
  "to_float (PFloat x) = Inr x"
| "to_float (PInt n) = Inr (Fin (real_of_int n))"
| "to_float (PBool b) = Inr (Fin (if b then 1 else 0))"
| "to_float (PStr s vs) = Inl ValueError"

definition row_float :: "pdict \<Rightarrow> string \<Rightarrow> error + fl" where
  "row_float row c = (case map_of row c of None \<Rightarrow> Inl KeyError | Some v \<Rightarrow> to_float v)"

text \<open>The dates \<open>df.index[0]\<close> and \<open>df.index[-1]\<close>; indexing an empty index raises.\<close>

definition period_of :: "bars \<Rightarrow> error + int \<times> int" where
  "period_of df = (if df = [] then Inl IndexError else Inr (ts (hd df), ts (last df)))"

record wf_report =
  train_period :: "int \<times> int"
  test_period :: "int \<times> int"
  best_params :: pdict
  train_sharpe :: fl
  train_return :: fl
  test_result :: backtest_result

text \<open>The returned dict is either \<open>{"error": "No valid results in training period"}\<close> or the report.\<close>

datatype wf_outcome = NoValidResults | Report wf_report

definition walk_forward ::
  "(string \<Rightarrow> pdict list \<Rightarrow> pdict list) \<Rightarrow> engine \<Rightarrow> bars \<Rightarrow> strategy_class
     \<Rightarrow> (string \<times> pval list) list \<Rightarrow> real \<Rightarrow> error + wf_outcome" where
  "walk_forward sort_values eng df cls param_grid train_ratio =
     (let split_idx = py_int (real (length df) * train_ratio);
          train_df = iloc_to split_idx df;
          test_df = iloc_from split_idx df;
          train_results = grid_search sort_values eng train_df cls param_grid ''sharpe_ratio''
      in if length train_results = 0 then Inr NoValidResults
         else
           let best_row = hd train_results in
           ebind (best_params_of best_row (map fst param_grid)) (\<lambda>bp.
           ebind (cls bp) (\<lambda>strat.
           ebind (run eng test_df strat) (\<lambda>tr.
           ebind (period_of train_df) (\<lambda>trp.
           ebind (period_of test_df) (\<lambda>tep.
           ebind (row_float best_row ''sharpe_ratio'') (\<lambda>sh.
           ebind (row_float best_row ''total_return'') (\<lambda>ret.
             Inr (Report \<lparr>train_period = trp, test_period = tep, best_params = bp,
                           train_sharpe = sh, train_return = ret, test_result = tr\<rparr>)))))))))"

section \<open>The specification's formulas\<close>

text \<open>
  The formulas of the specification, written on real numbers, to be compared with the
  engine. The strategy return of bar \<open>t\<close> and the equity at bar \<open>t\<close>:
\<close>

definition spec_strategy_return :: "engine \<Rightarrow> frame \<Rightarrow> nat \<Rightarrow> real" where
  "spec_strategy_return eng df t =
     (if t = 0 then 0
      else (close (df ! t) / close (df ! (t - 1)) - 1) * real_of_int (signal (df ! (t - 1)))
           - \<bar>real_of_int (signal (df ! t)) - real_of_int (signal (df ! (t - 1)))\<bar>
             * (fee_rate eng + slippage eng))"

definition spec_equity :: "engine \<Rightarrow> frame \<Rightarrow> nat \<Rightarrow> real" where
  "spec_equity eng df t =
     initial_capital eng * prod_list (map (\<lambda>i. 1 + spec_strategy_return eng df i) [0..<Suc t])"

text \<open>
  The running maximum of an equity curve, the drawdown at a bar and the maximum drawdown
  (0 for the empty curve, as in the zero record of the metrics calculator):
\<close>

definition spec_running_max :: "real list \<Rightarrow> nat \<Rightarrow> real" where
  "spec_running_max es t = Max (set (take (Suc t) es))"

definition spec_drawdown :: "real list \<Rightarrow> nat \<Rightarrow> real" where
  "spec_drawdown es t = (es ! t - spec_running_max es t) / spec_running_max es t"

definition spec_max_drawdown :: "real list \<Rightarrow> real" where
  "spec_max_drawdown es =
     (if es = [] then 0 else Min (set (map (spec_drawdown es) [0..<length es])))"

text \<open>
  The filters of the filtered crossover at a bar: the trend filter passes when the close is
  above the trend average, the momentum filter when the oscillator is above the threshold.
\<close>

definition spec_trend_pass :: "ema_cross \<Rightarrow> bars \<Rightarrow> nat \<Rightarrow> bool" where
  "spec_trend_pass self df t =
     (case ema (map bclose df) (trend_period self) of
        Inr ema_trend \<Rightarrow> bclose (df ! t) > ema_trend ! t
      | Inl e \<Rightarrow> False)"

definition spec_momentum_pass :: "ema_cross \<Rightarrow> bars \<Rightarrow> nat \<Rightarrow> bool" where
  "spec_momentum_pass self df t =
     (case rsi (map bclose df) (rsi_period self) of
        Inr rsi_col \<Rightarrow>
          (case threshold_of (rsi_threshold self) of
             Inr thr \<Rightarrow> fgt (rsi_col ! t) thr
           | Inl e \<Rightarrow> False)
      | Inl e \<Rightarrow> False)"

text \<open>
  The metric columns of a summary row: the keys of \<open>BacktestMetrics.to_dict\<close> and
  \<open>hodl_return\<close>.
\<close>

definition metric_columns :: "string list" where
  "metric_columns =
     [''total_return'', ''annual_return'', ''sharpe_ratio'', ''max_drawdown'', ''win_rate'',
      ''total_trades'', ''profit_factor'', ''avg_trade_return'', ''hodl_return'']"

section \<open>Example data\<close>

text \<open>
  The engine with the defaults of \<open>BacktestEngine.__init__\<close>.
\<close>

definition default_engine :: engine where
  "default_engine = \<lparr>fee_rate = 1 / 1000, slippage = 1 / 1000, initial_capital = 10000000\<rparr>"

text \<open>
  Two frames with the same closes whose signals differ at the last bar only.
\<close>

definition lag_df :: frame where
  "lag_df = [\<lparr>close = 100, signal = 0\<rparr>, \<lparr>close = 100, signal = 0\<rparr>]"

definition lag_df' :: frame where
  "lag_df' = [\<lparr>close = 100, signal = 0\<rparr>, \<lparr>close = 100, signal = 1\<rparr>]"

text \<open>
  A bar with the given timestamp and close.
\<close>

definition mk_bar :: "int \<Rightarrow> real \<Rightarrow> bar" where
  "mk_bar t c = \<lparr>ts = t, opn = c, high = c, low = c, bclose = c, volume = 1\<rparr>"

text \<open>
  A strategy that is long at every bar.
\<close>

definition hold_long :: strategy where
  "hold_long = \<lparr>name = PStr ''hold_long'' [], params = [],
                 calculate = (\<lambda>df. Inr (map (\<lambda>b. \<lparr>close = bclose b, signal = 1\<rparr>) df))\<rparr>"

text \<open>
  Short bar series: rising, rising then falling, and rising over four bars.
\<close>

definition bars_up :: bars where
  "bars_up = [mk_bar 0 100, mk_bar 1 110]"

definition bars_updown :: bars where
  "bars_updown = [mk_bar 0 100, mk_bar 1 110, mk_bar 2 99]"

definition bars_rise :: bars where
  "bars_rise = [mk_bar 0 100, mk_bar 1 110, mk_bar 2 120, mk_bar 3 130]"

text \<open>
  Eight bars, flat for the first half and rising in the second, a grid over
  \<open>rsi_period\<close>, and what \<open>EMACrossStrategy\<close> yields on them: the summary row of either
  combination on the flat half and the result of the default instance on the rising half.
\<close>

definition bars_wf :: bars where
  "bars_wf = [mk_bar 0 100, mk_bar 1 100, mk_bar 2 100, mk_bar 3 100,
              mk_bar 4 100, mk_bar 5 110, mk_bar 6 120, mk_bar 7 130]"

definition wf_grid :: "(string \<times> pval list) list" where
  "wf_grid = [(''rsi_period'', [PInt 2, PInt 3])]"

definition zero_trade_metrics :: metrics where
  "zero_trade_metrics =
     \<lparr>total_return = Fin 0, annual_return = Fin 0, sharpe_ratio = Fin 0, max_drawdown = Fin 0,
      win_rate = Fin 0, total_trades = 0, profit_factor = PInf, avg_trade_return = Fin 0\<rparr>"

definition wf_row :: pdict where
  "wf_row =
     [(''strategy'', PStr ''ema_cross'' [PInt 5, PInt 20]),
      (''short_period'', PInt 5), (''long_period'', PInt 20), (''trend_period'', PInt 60),
      (''rsi_threshold'', PInt 50), (''use_trend_filter'', PBool True),
      (''use_rsi_filter'', PBool True),
      (''total_return'', PFloat (Fin 0)), (''annual_return'', PFloat (Fin 0)),
      (''sharpe_ratio'', PFloat (Fin 0)), (''max_drawdown'', PFloat (Fin 0)),
      (''win_rate'', PFloat (Fin 0)), (''total_trades'', PInt 0),
      (''profit_factor'', PFloat PInf), (''avg_trade_return'', PFloat (Fin 0)),
      (''hodl_return'', PFloat (Fin 0))]"

definition wf_test_result :: backtest_result where
  "wf_test_result =
     \<lparr>strategy_name = PStr ''ema_cross'' [PInt 5, PInt 20],
      res_params = [(''short_period'', PInt 5), (''long_period'', PInt 20),
                    (''trend_period'', PInt 60), (''rsi_threshold'', PInt 50),
                    (''use_trend_filter'', PBool True), (''use_rsi_filter'', PBool True)],
      res_metrics = zero_trade_metrics,
      hodl_return = Fin (3 / 10),
      res_equity_curve = [Fin 10000000, Fin 10000000, Fin 10000000, Fin 10000000],
      res_signals = [Fin 0, Fin 0, Fin 0, Fin 0],
      res_df = mk_frame [100, 110, 120, 130] [0, 0, 0, 0]\<rparr>"

text \<open>
  The signal series of the specification's trade-counting example, a strategy that emits it
  and seven bars to run it on.
\<close>

definition spec_signals :: "int list" where
  "spec_signals = [0, 0, 1, 1, - 1, - 1, 0]"

definition spec_signal_strategy :: strategy where
  "spec_signal_strategy =
     \<lparr>name = PStr ''spec_signals'' [], params = [],
      calculate = (\<lambda>df. Inr (mk_frame (map bclose df) spec_signals))\<rparr>"

definition bars_seven :: bars where
  "bars_seven = [mk_bar 0 100, mk_bar 1 101, mk_bar 2 102, mk_bar 3 103, mk_bar 4 104,
                 mk_bar 5 105, mk_bar 6 106]"

section \<open>Auxiliary facts\<close>

subsection \<open>Series of the engine\<close>

lemma fadd_NaN_right [simp]: "fadd x NaN = NaN"
  by (cases x) simp_all

lemma fmul_NaN_right [simp]: "fmul x NaN = NaN"
  by (cases x) simp_all

lemma fdiv_NaN_right [simp]: "fdiv x NaN = NaN"
  by (cases x) simp_all

lemma length_shift1 [simp]: "length (shift1 xs) = length xs"
  by (simp add: shift1_def)

lemma shift1_nth: "t < length xs \<Longrightarrow> shift1 xs ! t = (if t = 0 then NaN else xs ! (t - 1))"
  by (cases t) (auto simp: shift1_def nth_butlast)

lemma length_diff1 [simp]: "length (diff1 xs) = length xs"
  by (simp add: diff1_def)

lemma length_pct_change [simp]: "length (pct_change xs) = length xs"
  by (simp add: pct_change_def)

lemma length_closes [simp]: "length (closes df) = length df"
  by (simp add: closes_def)

lemma length_signals [simp]: "length (signals df) = length df"
  by (simp add: signals_def)

lemma length_position_changes [simp]: "length (position_changes df) = length df"
  by (simp add: position_changes_def fillna0_def)

lemma length_gross_returns [simp]: "length (gross_returns df) = length df"
  by (simp add: gross_returns_def)

lemma length_strategy_returns [simp]: "length (strategy_returns eng df) = length df"
  by (simp add: strategy_returns_def strategy_returns_raw_def fillna0_def)

lemma pct_change_nth:
  "t < length xs \<Longrightarrow> pct_change xs ! t = fsub (fdiv (xs ! t) (shift1 xs ! t)) (Fin 1)"
  by (simp add: pct_change_def)

lemma gross_returns_nth:
  "t < length df \<Longrightarrow>
   gross_returns df ! t =
     fmul (fsub (fdiv (closes df ! t) (shift1 (closes df) ! t)) (Fin 1)) (shift1 (signals df) ! t)"
  by (simp add: gross_returns_def pct_change_nth)

lemma position_changes_nth:
  "t < length df \<Longrightarrow>
   position_changes df ! t =
     (if t = 0 then Fin 0 else Fin \<bar>real_of_int (signal (df ! t)) - real_of_int (signal (df ! (t - 1)))\<bar>)"
  by (simp add: position_changes_def fillna0_def diff1_def shift1_nth signals_def fsub_def)

lemma strategy_returns_nth:
  "t < length df \<Longrightarrow>
   strategy_returns eng df ! t =
     (let v = fsub (gross_returns df ! t) (fmul (position_changes df ! t) (Fin (total_cost eng)))
      in if is_nan v then Fin 0 else v)"
  by (simp add: strategy_returns_def strategy_returns_raw_def fillna0_def Let_def)

lemma gross_returns_0: "0 < length df \<Longrightarrow> gross_returns df ! 0 = NaN"
  by (simp add: gross_returns_nth shift1_nth fsub_def)

lemma strategy_returns_0: "0 < length df \<Longrightarrow> strategy_returns eng df ! 0 = Fin 0"
  by (simp add: strategy_returns_nth gross_returns_0 fsub_def)

lemma gross_returns_pos:
  "0 < t \<Longrightarrow> t < length df \<Longrightarrow> close (df ! (t - 1)) \<noteq> 0 \<Longrightarrow>
   gross_returns df ! t = Fin ((close (df ! t) / close (df ! (t - 1)) - 1) * real_of_int (signal (df ! (t - 1))))"
  by (simp add: gross_returns_nth shift1_nth closes_def signals_def fsub_def)

lemma strategy_returns_pos:
  "0 < t \<Longrightarrow> t < length df \<Longrightarrow> close (df ! (t - 1)) \<noteq> 0 \<Longrightarrow>
   strategy_returns eng df ! t =
     Fin ((close (df ! t) / close (df ! (t - 1)) - 1) * real_of_int (signal (df ! (t - 1)))
          - \<bar>real_of_int (signal (df ! t)) - real_of_int (signal (df ! (t - 1)))\<bar> * total_cost eng)"
  by (simp add: strategy_returns_nth gross_returns_pos position_changes_nth fsub_def)

lemma cumprod_from_fin:
  "cumprod_from (Fin a) (map Fin xs) = map (\<lambda>t. Fin (a * prod_list (take (Suc t) xs))) [0..<length xs]"
proof (induction xs arbitrary: a)
  case Nil
  then show ?case by simp
next
  case (Cons x xs)
  have "map (\<lambda>t. Fin (a * prod_list (take (Suc t) (x # xs)))) [0..<length (x # xs)]
        = Fin (a * x) # map (\<lambda>t. Fin (a * x * prod_list (take (Suc t) xs))) [0..<length xs]"
    by (simp add: upt_conv_Cons map_Suc_upt [symmetric] mult.assoc del: upt_Suc)
  then show ?case using Cons.IH [of "a * x"] by simp
qed

lemma strategy_returns_fin:
  assumes "\<forall>r\<in>set df. close r \<noteq> 0"
  shows "strategy_returns eng df = map (\<lambda>t. Fin (spec_strategy_return eng df t)) [0..<length df]"
proof (rule nth_equalityI)
  show "length (strategy_returns eng df) = length (map (\<lambda>t. Fin (spec_strategy_return eng df t)) [0..<length df])"
    by simp
next
  fix t assume "t < length (strategy_returns eng df)"
  then have t: "t < length df" by simp
  show "strategy_returns eng df ! t = map (\<lambda>t. Fin (spec_strategy_return eng df t)) [0..<length df] ! t"
  proof (cases "t = 0")
    case True
    then show ?thesis using t by (simp add: strategy_returns_0 spec_strategy_return_def)
  next
    case False
    then have "close (df ! (t - 1)) \<noteq> 0" using assms t by (simp add: less_imp_diff_less)
    then show ?thesis using False t
      by (simp add: strategy_returns_pos spec_strategy_return_def total_cost_def)
  qed
qed

lemma equity_curve_fin:
  assumes "\<forall>r\<in>set df. close r \<noteq> 0"
  shows "equity_curve eng df = map (\<lambda>t. Fin (spec_equity eng df t)) [0..<length df]"
proof -
  let ?f = "\<lambda>i. 1 + spec_strategy_return eng df i"
  have a: "map (fadd (Fin 1)) (strategy_returns eng df) = map Fin (map ?f [0..<length df])"
    by (simp add: strategy_returns_fin [OF assms])
  have "take (Suc t) (map ?f [0..<length df]) = map ?f [0..<Suc t]" if "t < length df" for t
    using that by (simp add: take_map)
  then show ?thesis
    unfolding equity_curve_def cumprod_def a cumprod_from_fin
    by (simp add: spec_equity_def)
qed

subsection \<open>Reductions of finite series\<close>


lemma dropna_fin: "dropna (map Fin ys) = map Fin ys"
  by (induction ys) (simp_all add: dropna_def)

subsection \<open>The metrics record\<close>

lemma length_accumulate_from [simp]: "length (accumulate_from m xs) = length xs"
  by (induction xs arbitrary: m) simp_all

lemma length_maximum_accumulate [simp]: "length (maximum_accumulate xs) = length xs"
  by (cases xs) simp_all

lemma length_drawdown [simp]: "length (drawdown equity) = length equity"
  by (simp add: drawdown_def)

lemma array_min_nonempty: "xs \<noteq> [] \<Longrightarrow> array_min xs = Inr (foldl fmin_np (hd xs) (tl xs))"
  by (cases xs) simp_all

lemma drawdown_nonempty: "equity \<noteq> [] \<Longrightarrow> drawdown equity \<noteq> []"
  using length_drawdown [of equity] by (metis length_0_conv)

text \<open>The record computed on a non-empty realized return series and a non-empty equity curve.\<close>

lemma calculate_metrics_nonempty:
  assumes "dropna returns = rs" and "rs \<noteq> []" and "equity \<noteq> []"
  shows "calculate_metrics returns equity sigs =
    Inr \<lparr>total_return = fsub (fprod (map (fadd (Fin 1)) rs)) (Fin 1),
         annual_return =
           (if fgt (fsub (fprod (map (fadd (Fin 1)) rs)) (Fin 1)) (Fin (- 1))
            then fsub (fpow (fadd (Fin 1) (fsub (fprod (map (fadd (Fin 1)) rs)) (Fin 1)))
                         (365 / real (length rs))) (Fin 1)
            else Fin 0),
         sharpe_ratio =
           (if fgt (volatility rs) (Fin 0)
            then fdiv (if fgt (fsub (fprod (map (fadd (Fin 1)) rs)) (Fin 1)) (Fin (- 1))
                       then fsub (fpow (fadd (Fin 1) (fsub (fprod (map (fadd (Fin 1)) rs)) (Fin 1)))
                                    (365 / real (length rs))) (Fin 1)
                       else Fin 0) (volatility rs)
            else Fin 0),
         max_drawdown = foldl fmin_np (hd (drawdown equity)) (tl (drawdown equity)),
         win_rate =
           (if 0 < length (filter (\<lambda>r. fgt r (Fin 0)) rs) + length (filter (\<lambda>r. flt r (Fin 0)) rs)
            then Fin (real (length (filter (\<lambda>r. fgt r (Fin 0)) rs))
                      / real (length (filter (\<lambda>r. fgt r (Fin 0)) rs) + length (filter (\<lambda>r. flt r (Fin 0)) rs)))
            else Fin 0),
         total_trades =
           (case sigs of Some s \<Rightarrow> count_trades s
            | None \<Rightarrow> int (length (filter (\<lambda>r. fne r (Fin 0)) rs))),
         profit_factor =
           (if fgt (if 0 < length (filter (\<lambda>r. flt r (Fin 0)) rs)
                    then fabs (fsum (filter (\<lambda>r. flt r (Fin 0)) rs)) else Fin 0) (Fin 0)
            then fdiv (if 0 < length (filter (\<lambda>r. fgt r (Fin 0)) rs)
                       then fsum (filter (\<lambda>r. fgt r (Fin 0)) rs) else Fin 0)
                      (if 0 < length (filter (\<lambda>r. flt r (Fin 0)) rs)
                       then fabs (fsum (filter (\<lambda>r. flt r (Fin 0)) rs)) else Fin 0)
            else PInf),
         avg_trade_return =
           (if list_ex (\<lambda>r. fne r (Fin 0)) rs
            then fmean (filter (\<lambda>r. fne r (Fin 0)) rs) else Fin 0)\<rparr>"
  using assms
  by (simp add: calculate_metrics_def sharpe_guard_def Let_def
      array_min_nonempty [OF drawdown_nonempty])

subsection \<open>Counting trades\<close>

lemma signal_diff_list:
  "fillna0 (diff1 (map (\<lambda>i. Fin (real_of_int i)) s))
   = map (\<lambda>t. if t = 0 then Fin 0 else Fin (real_of_int (s ! t) - real_of_int (s ! (t - 1)))) [0..<length s]"
  by (rule nth_equalityI) (simp_all add: fillna0_def diff1_def shift1_nth fsub_def)

lemma count_trades_int:
  "count_trades (map (\<lambda>i. Fin (real_of_int i)) s)
   = int (length (filter (\<lambda>t. s ! t \<noteq> s ! (t - 1)) [1..<length s]))"
proof (cases "s = []")
  case True
  then show ?thesis by (simp add: count_trades_def fillna0_def diff1_def shift1_def)
next
  case False
  then have u: "[0..<length s] = 0 # [1..<length s]" by (simp add: upt_conv_Cons)
  have "filter (\<lambda>t. fne (if t = 0 then Fin 0 else Fin (real_of_int (s ! t) - real_of_int (s ! (t - 1)))) (Fin 0)) [1..<length s]
        = filter (\<lambda>t. s ! t \<noteq> s ! (t - 1)) [1..<length s]"
    by (rule filter_cong) (auto simp: fne_def)
  then show ?thesis
    unfolding count_trades_def signal_diff_list filter_map length_map o_def
    by (simp add: u fne_def del: upt_Suc)
qed

subsection \<open>Series of zero returns\<close>

lemma all_zero_list: "\<forall>r\<in>set rs. r = Fin 0 \<Longrightarrow> rs = replicate (length rs) (Fin 0)"
  by (induction rs) simp_all

lemma fsum_replicate_zero: "fsum (replicate n (Fin 0)) = Fin 0"
  by (induction n) (simp_all add: fsum_def)

lemma fprod_replicate_one: "fprod (replicate n (Fin 1)) = Fin 1"
  by (induction n) (simp_all add: fprod_def)

lemma volatility_all_zero: "\<not> fgt (volatility (replicate n (Fin 0))) (Fin 0)"
proof (cases "n \<le> 1")
  case True
  then show ?thesis by (simp add: volatility_def fstd_def fgt_def)
next
  case False
  then have "fmean (replicate n (Fin 0)) = Fin 0"
    by (simp add: fmean_def fsum_replicate_zero)
  then have "fstd (replicate n (Fin 0)) = Fin 0"
    using False by (simp add: fstd_def fsub_def fsum_replicate_zero)
  then show ?thesis by (simp add: volatility_def fgt_def)
qed

subsection \<open>Drawdown of a finite equity curve\<close>

lemma fmax_np_fin [simp]: "fmax_np (Fin a) (Fin b) = Fin (max a b)"
  by (simp add: fmax_np_def max_def)

lemma fmin_np_fin [simp]: "fmin_np (Fin a) (Fin b) = Fin (min a b)"
  by (simp add: fmin_np_def min_def)

lemma Max_insert_max:
  "finite S \<Longrightarrow> max m (Max (insert x S)) = Max (insert (max m x) S)" for m :: real
  by (cases "S = {}") (simp_all add: max.assoc)

lemma accumulate_from_fin:
  "accumulate_from (Fin m) (map Fin xs)
   = map (\<lambda>t. Fin (Max (insert m (set (take (Suc t) xs))))) [0..<length xs]"
proof (induction xs arbitrary: m)
  case Nil
  then show ?case by simp
next
  case (Cons x xs)
  have "map (\<lambda>t. Fin (Max (insert m (set (take (Suc t) (x # xs)))))) [0..<length (x # xs)]
        = Fin (max m x) # map (\<lambda>t. Fin (Max (insert (max m x) (set (take (Suc t) xs))))) [0..<length xs]"
    by (simp add: upt_conv_Cons map_Suc_upt [symmetric] Max_insert_max del: upt_Suc)
  then show ?case using Cons.IH [of "max m x"] by simp
qed

lemma maximum_accumulate_fin:
  "maximum_accumulate (map Fin es) = map (\<lambda>t. Fin (spec_running_max es t)) [0..<length es]"
proof (cases es)
  case Nil
  then show ?thesis by simp
next
  case (Cons x xs)
  show ?thesis unfolding Cons
    by (simp add: accumulate_from_fin spec_running_max_def upt_conv_Cons map_Suc_upt [symmetric]
        del: upt_Suc)
qed

lemma running_max_ge_nth: "t < length es \<Longrightarrow> es ! t \<le> spec_running_max es t"
  unfolding spec_running_max_def by (rule Max_ge) (auto simp: in_set_conv_nth)

lemma running_max_ge_hd: "t < length es \<Longrightarrow> hd es \<le> spec_running_max es t"
  unfolding spec_running_max_def by (rule Max_ge) (cases es; simp)+

lemma drawdown_fin:
  assumes "es \<noteq> []" and "0 < hd es"
  shows "drawdown (map Fin es) = map (\<lambda>t. Fin (spec_drawdown es t)) [0..<length es]"
proof (rule nth_equalityI)
  show "length (drawdown (map Fin es)) = length (map (\<lambda>t. Fin (spec_drawdown es t)) [0..<length es])"
    by simp
next
  fix t assume "t < length (drawdown (map Fin es))"
  then have t: "t < length es" by simp
  then have "0 < spec_running_max es t" using running_max_ge_hd [OF t] assms(2) by linarith
  then show "drawdown (map Fin es) ! t = map (\<lambda>t. Fin (spec_drawdown es t)) [0..<length es] ! t"
    using t by (simp add: drawdown_def maximum_accumulate_fin spec_drawdown_def fsub_def)
qed

lemma foldl_fmin_np_fin: "foldl fmin_np (Fin a) (map Fin xs) = Fin (Min (insert a (set xs)))"
proof (induction xs arbitrary: a)
  case Nil
  then show ?case by simp
next
  case (Cons x xs)
  have "Min (insert (min a x) (set xs)) = Min (insert a (insert x (set xs)))"
    by (cases "xs = []") (simp_all add: min.assoc)
  then show ?case using Cons.IH [of "min a x"] by simp
qed

lemma array_min_fin: "xs \<noteq> [] \<Longrightarrow> array_min (map Fin xs) = Inr (Fin (Min (set xs)))"
  by (cases xs) (simp_all add: foldl_fmin_np_fin)

lemma array_min_drawdown_fin:
  assumes "es \<noteq> []" and "0 < hd es"
  shows "array_min (drawdown (map Fin es)) = Inr (Fin (spec_max_drawdown es))"
proof -
  have "drawdown (map Fin es) = map Fin (map (spec_drawdown es) [0..<length es])"
    by (simp add: drawdown_fin [OF assms] o_def)
  moreover have "map (spec_drawdown es) [0..<length es] \<noteq> []" using assms(1) by simp
  ultimately show ?thesis using assms(1) array_min_fin [of "map (spec_drawdown es) [0..<length es]"]
    by (simp add: spec_max_drawdown_def)
qed

lemma spec_drawdown_le_0:
  assumes "t < length es" and "0 < hd es"
  shows "spec_drawdown es t \<le> 0"
proof -
  have "0 < spec_running_max es t" using running_max_ge_hd [OF assms(1)] assms(2) by linarith
  then show ?thesis using running_max_ge_nth [OF assms(1)]
    by (simp add: spec_drawdown_def divide_le_0_iff)
qed

lemma spec_drawdown_eq_0:
  assumes "t < length es" and "0 < hd es"
  shows "spec_drawdown es t = 0 \<longleftrightarrow> es ! t = spec_running_max es t"
proof -
  have "0 < spec_running_max es t" using running_max_ge_hd [OF assms(1)] assms(2) by linarith
  then show ?thesis by (simp add: spec_drawdown_def)
qed

lemma running_max_sorted:
  "(\<forall>t<length es. es ! t = spec_running_max es t) \<longleftrightarrow> sorted es"
proof
  assume a: "\<forall>t<length es. es ! t = spec_running_max es t"
  show "sorted es"
  proof (rule sorted_iff_nth_mono [THEN iffD2], intro allI impI)
    fix i j assume "i \<le> j" and j: "j < length es"
    then have "es ! i \<in> set (take (Suc j) es)"
      by (metis in_set_conv_nth le_imp_less_Suc length_take min_less_iff_conj nth_take order_le_less_trans)
    then have "es ! i \<le> spec_running_max es j"
      unfolding spec_running_max_def by (intro Max_ge) simp_all
    then show "es ! i \<le> es ! j" using a j by simp
  qed
next
  assume s: "sorted es"
  show "\<forall>t<length es. es ! t = spec_running_max es t"
  proof (intro allI impI)
    fix t assume t: "t < length es"
    have "spec_running_max es t \<le> es ! t"
      unfolding spec_running_max_def
    proof (rule Max.boundedI)
      show "finite (set (take (Suc t) es))" by simp
      show "set (take (Suc t) es) \<noteq> {}" using t by (cases es) auto
      fix a assume "a \<in> set (take (Suc t) es)"
      then obtain i where "i < Suc t" "i < length es" "a = es ! i"
        by (auto simp: in_set_conv_nth)
      then show "a \<le> es ! t" using s t by (simp add: sorted_nth_mono)
    qed
    then show "es ! t = spec_running_max es t" using running_max_ge_nth [OF t] by simp
  qed
qed

lemma spec_max_drawdown_bound:
  assumes "0 < hd es \<or> es = []"
  shows "spec_max_drawdown es \<le> 0 \<and> (spec_max_drawdown es = 0 \<longleftrightarrow> sorted es)"
proof (cases "es = []")
  case True
  then show ?thesis by (simp add: spec_max_drawdown_def)
next
  case False
  then have h: "0 < hd es" using assms by simp
  let ?D = "set (map (spec_drawdown es) [0..<length es])"
  have fin: "finite ?D" and ne: "?D \<noteq> {}" using False by simp_all
  have le: "\<forall>d\<in>?D. d \<le> 0" using spec_drawdown_le_0 [OF _ h] by auto
  have m: "spec_max_drawdown es = Min ?D" using False by (simp add: spec_max_drawdown_def)
  have "Min ?D \<in> ?D" using fin ne by (rule Min_in)
  then have b: "Min ?D \<le> 0" using le by blast
  have "Min ?D = 0 \<longleftrightarrow> (\<forall>d\<in>?D. d = 0)"
  proof
    assume z: "Min ?D = 0"
    show "\<forall>d\<in>?D. d = 0"
    proof
      fix d assume d: "d \<in> ?D"
      then have "Min ?D \<le> d" using fin by (intro Min_le)
      then show "d = 0" using z le d by fastforce
    qed
  next
    assume "\<forall>d\<in>?D. d = 0"
    then show "Min ?D = 0" using \<open>Min ?D \<in> ?D\<close> by blast
  qed
  also have "\<dots> \<longleftrightarrow> (\<forall>t<length es. spec_drawdown es t = 0)" by auto
  also have "\<dots> \<longleftrightarrow> (\<forall>t<length es. es ! t = spec_running_max es t)"
    using spec_drawdown_eq_0 [OF _ h] by auto
  also have "\<dots> \<longleftrightarrow> sorted es" by (rule running_max_sorted)
  finally show ?thesis using b m by simp
qed

lemma max_drawdown_fin:
  assumes "dropna returns \<noteq> []" and "es \<noteq> []" and "0 < hd es"
  shows "\<exists>m. calculate_metrics returns (map Fin es) sigs = Inr m
           \<and> max_drawdown m = Fin (spec_max_drawdown es)"
proof -
  have ne: "map Fin es \<noteq> []" using assms(2) by simp
  have "array_min (drawdown (map Fin es))
        = Inr (foldl fmin_np (hd (drawdown (map Fin es))) (tl (drawdown (map Fin es))))"
    by (rule array_min_nonempty [OF drawdown_nonempty [OF ne]])
  then have "foldl fmin_np (hd (drawdown (map Fin es))) (tl (drawdown (map Fin es)))
             = Fin (spec_max_drawdown es)"
    using array_min_drawdown_fin [OF assms(2,3)] by simp
  then show ?thesis
    by (simp add: calculate_metrics_nonempty [OF refl assms(1) ne])
qed

subsection \<open>Unfolding a run\<close>

lemma calculate_metrics_empty:
  "dropna returns = [] \<Longrightarrow> calculate_metrics returns equity sigs = Inr zero_metrics"
  by (simp add: calculate_metrics_def)

lemma strategy_returns_Nil [simp]: "strategy_returns eng [] = []"
  by (simp add: strategy_returns_def strategy_returns_raw_def gross_returns_def fillna0_def
      signals_def shift1_def)

lemma run_unfold:
  assumes "calculate strat bars = Inr df"
    and "calculate_metrics (strategy_returns eng df) (equity_curve eng df) (Some (signals df)) = Inr m"
  shows "run eng bars strat =
     Inr \<lparr>strategy_name = name strat, res_params = params strat, res_metrics = m,
          hodl_return = calculate_hodl_return bars,
          res_equity_curve = equity_curve eng df,
          res_signals = signals df, res_df = df\<rparr>"
  using assms by (simp add: run_def)

subsection \<open>The guarded quotients\<close>


lemma calculate_metrics_fields:
  assumes "dropna returns = rs" and "rs \<noteq> []" and "equity \<noteq> []"
    and "calculate_metrics returns equity sigs = Inr m"
  shows "total_return m = fsub (fprod (map (fadd (Fin 1)) rs)) (Fin 1)"
    and "annual_return m =
           (if fgt (total_return m) (Fin (- 1))
            then fsub (fpow (fadd (Fin 1) (total_return m)) (365 / real (length rs))) (Fin 1)
            else Fin 0)"
    and "sharpe_ratio m =
           (if fgt (volatility rs) (Fin 0) then fdiv (annual_return m) (volatility rs) else Fin 0)"
    and "win_rate m =
           (if 0 < length (filter (\<lambda>r. fgt r (Fin 0)) rs) + length (filter (\<lambda>r. flt r (Fin 0)) rs)
            then Fin (real (length (filter (\<lambda>r. fgt r (Fin 0)) rs))
                      / real (length (filter (\<lambda>r. fgt r (Fin 0)) rs) + length (filter (\<lambda>r. flt r (Fin 0)) rs)))
            else Fin 0)"
    and "profit_factor m =
           (if fgt (if 0 < length (filter (\<lambda>r. flt r (Fin 0)) rs)
                    then fabs (fsum (filter (\<lambda>r. flt r (Fin 0)) rs)) else Fin 0) (Fin 0)
            then fdiv (if 0 < length (filter (\<lambda>r. fgt r (Fin 0)) rs)
                       then fsum (filter (\<lambda>r. fgt r (Fin 0)) rs) else Fin 0)
                      (if 0 < length (filter (\<lambda>r. flt r (Fin 0)) rs)
                       then fabs (fsum (filter (\<lambda>r. flt r (Fin 0)) rs)) else Fin 0)
            else PInf)"
    and "avg_trade_return m =
           (if list_ex (\<lambda>r. fne r (Fin 0)) rs
            then fmean (filter (\<lambda>r. fne r (Fin 0)) rs) else Fin 0)"
  using assms(4) unfolding calculate_metrics_nonempty [OF assms(1,2,3)] by auto

subsection \<open>Runs of the examples\<close>

lemmas run_eval_defs =
  strategy_returns_def strategy_returns_raw_def gross_returns_def
  position_changes_def pct_change_def diff1_def shift1_def closes_def signals_def
  fillna0_def fsub_def total_cost_def equity_curve_def cumprod_def

lemma sr_up:
  "strategy_returns default_engine [\<lparr>close = 100, signal = 1\<rparr>, \<lparr>close = 110, signal = 1\<rparr>] = [Fin 0, Fin (1 / 10)]"
  by (simp add: run_eval_defs default_engine_def)

lemma eq_up:
  "equity_curve default_engine [\<lparr>close = 100, signal = 1\<rparr>, \<lparr>close = 110, signal = 1\<rparr>] = [Fin 10000000, Fin 11000000]"
  unfolding equity_curve_def sr_up by (simp add: cumprod_def default_engine_def)

lemma run_equity:
  "calculate strat bars = Inr df \<Longrightarrow> run eng bars strat = Inr res \<Longrightarrow>
   res_equity_curve res = equity_curve eng df"
  by (auto simp: run_def split: sum.splits)

subsection \<open>Indicators and the crossover strategies\<close>

lemma ebind_Inr: "ebind m f = Inr y \<Longrightarrow> \<exists>x. m = Inr x \<and> f x = Inr y"
  by (cases m) (simp_all add: ebind_def)

lemma ebind_simps [simp]: "ebind (Inr x) f = f x" "ebind (Inl e) f = Inl e"
  by (simp_all add: ebind_def)

lemma length_ewm_from [simp]: "length (ewm_from a p xs) = length xs"
  by (induction xs arbitrary: p) simp_all

lemma length_ewm_mean [simp]: "length (ewm_mean a xs) = length xs"
  by (cases xs) simp_all

lemma ema_length: "ema cl p = Inr es \<Longrightarrow> length es = length cl"
  by (auto simp: ema_def dest!: ebind_Inr split: if_splits)

lemma rsi_length: "rsi cl p = Inr rv \<Longrightarrow> length rv = length cl"
  by (auto simp: rsi_def rolling_mean_def Let_def dest!: ebind_Inr)

lemma suppress_long_nth:
  "t < length sig \<Longrightarrow> t < length ok \<Longrightarrow>
   suppress_long sig ok ! t = (if sig ! t = 1 \<and> \<not> ok ! t then 0 else sig ! t)"
  by (simp add: suppress_long_def)

lemma length_suppress_long [simp]: "length (suppress_long sig ok) = min (length sig) (length ok)"
  by (simp add: suppress_long_def)

lemma length_base_signal [simp]: "length (base_signal es el) = min (length es) (length el)"
  by (simp add: base_signal_def)

lemma length_mk_frame [simp]: "length (mk_frame cl sig) = min (length cl) (length sig)"
  by (simp add: mk_frame_def)

lemma mk_frame_nth:
  "t < length cl \<Longrightarrow> t < length sig \<Longrightarrow>
   close (mk_frame cl sig ! t) = cl ! t \<and> signal (mk_frame cl sig ! t) = sig ! t"
  by (simp add: mk_frame_def)

lemma upt4: "[0..<4] = [0, 1, 2, 3]"
  by (simp add: upt_rec)

lemma closes_rise: "map bclose bars_rise = [100, 110, 120, 130]"
  by (simp add: bars_rise_def mk_bar_def)

lemma ema_rise_5: "ema [100, 110, 120, 130] (PInt 5) = Inr [100, 310 / 3, 980 / 9, 3130 / 27]"
  by (simp add: ema_def)

lemma ema_rise_20: "ema [100, 110, 120, 130] (PInt 20) = Inr [100, 2120 / 21, 45320 / 441, 975740 / 9261]"
  by (simp add: ema_def)

lemma ema_rise_60: "ema [100, 110, 120, 130] (PInt 60) = Inr [100, 6120 / 61, 375720 / 3721, 23134940 / 226981]"
  by (simp add: ema_def)

lemma rsi_rise_14: "rsi [100, 110, 120, 130] (PInt 14) = Inr [NaN, NaN, NaN, NaN]"
  by (simp add: rsi_def rolling_mean_def Let_def diff1_def shift1_def fsub_def upt4)

lemma rsi_rise_2: "rsi [100, 110, 120, 130] (PInt 2) = Inr [NaN, Fin 100, Fin 100, Fin 100]"
  by (simp add: rsi_def rolling_mean_def Let_def diff1_def shift1_def fsub_def upt4 fgt_def
      fsum_def sgn_inf_def)

lemma calc_rise_default:
  "ema_cross_calculate ema_cross_defaults bars_rise = Inr (mk_frame [100, 110, 120, 130] [0, 0, 0, 0])"
  unfolding ema_cross_calculate_def closes_rise Let_def
  by (simp add: ema_cross_defaults_def ema_rise_5 ema_rise_20 ema_rise_60 rsi_rise_14
      base_signal_def uptrend_def suppress_long_def rsi_ok_def fgt_def)

subsection \<open>The example sort\<close>

lemma flt_asym: "flt a b \<Longrightarrow> \<not> flt b a"
  by (cases a; cases b) simp_all

lemma flt_irrefl [simp]: "\<not> flt a a"
  by (cases a) simp_all

lemma key_ge_refl [simp]: "key_ge a a"
  by (simp add: key_ge_def)

lemma key_ge_total: "key_ge a b \<or> key_ge b a"
  using flt_asym [of a b] by (auto simp: key_ge_def)

lemma key_ge_trans: "key_ge a b \<Longrightarrow> key_ge b c \<Longrightarrow> key_ge a c"
  unfolding key_ge_def by (cases a; cases b; cases c) simp_all

lemma set_insort_before [simp]: "set (insort_before k x xs) = insert x (set xs)"
  by (induction xs) auto

lemma mset_insort_before [simp]: "mset (insort_before k x xs) = add_mset x (mset xs)"
  by (induction xs) simp_all

lemma sorted_insort_before:
  "sorted_wrt (\<lambda>a b. key_ge (k a) (k b)) xs \<Longrightarrow>
   sorted_wrt (\<lambda>a b. key_ge (k a) (k b)) (insort_before k x xs)"
proof (induction xs)
  case Nil
  then show ?case by simp
next
  case (Cons y ys)
  show ?case
  proof (cases "key_ge (k x) (k y)")
    case True
    then have "\<forall>z\<in>set ys. key_ge (k x) (k z)"
      using Cons.prems key_ge_trans by auto
    then show ?thesis using True Cons.prems by simp
  next
    case False
    then have "key_ge (k y) (k x)" using key_ge_total by blast
    then show ?thesis using False Cons by simp
  qed
qed

text \<open>The example sort returns a permutation of the table in descending order of the column.\<close>

lemma sort_values_stable_sorts:
  "mset (sort_values_stable c tbl) = mset tbl
   \<and> sorted_wrt key_ge (map (col_key c) (sort_values_stable c tbl))"
  unfolding sort_values_stable_def sorted_wrt_map
  by (induction tbl) (simp_all add: sorted_insort_before)

subsection \<open>Runs without a trade\<close>

lemma fmul_zero_right: "fmul x (Fin 0) = Fin 0 \<or> fmul x (Fin 0) = NaN"
  by (cases x) (simp_all add: sgn_inf_def)

lemma strategy_returns_zero_signals:
  assumes "\<forall>r\<in>set df. signal r = 0"
  shows "strategy_returns eng df = replicate (length df) (Fin 0)"
proof (rule nth_equalityI)
  show "length (strategy_returns eng df) = length (replicate (length df) (Fin 0))" by simp
next
  fix t assume "t < length (strategy_returns eng df)"
  then have t: "t < length df" by simp
  have s: "signal (df ! i) = 0" if "i < length df" for i using assms that by simp
  have p: "position_changes df ! t = Fin 0"
    using t s [of t] s [of "t - 1"] by (simp add: position_changes_nth less_imp_diff_less)
  have "shift1 (signals df) ! t = NaN \<or> shift1 (signals df) ! t = Fin 0"
    using t s [of "t - 1"] by (simp add: shift1_nth signals_def less_imp_diff_less)
  then have "gross_returns df ! t = NaN \<or> gross_returns df ! t = Fin 0"
    using t fmul_zero_right [of "fsub (fdiv (closes df ! t) (shift1 (closes df) ! t)) (Fin 1)"]
    by (auto simp: gross_returns_nth)
  then show "strategy_returns eng df ! t = replicate (length df) (Fin 0) ! t"
    using t p by (auto simp: strategy_returns_nth fsub_def)
qed

lemma cumprod_from_ones: "cumprod_from (Fin 1) (replicate n (Fin 1)) = replicate n (Fin 1)"
  by (induction n) simp_all

lemma equity_curve_zero_signals:
  assumes "\<forall>r\<in>set df. signal r = 0"
  shows "equity_curve eng df = map Fin (replicate (length df) (initial_capital eng))"
  by (simp add: equity_curve_def strategy_returns_zero_signals [OF assms] cumprod_def
      cumprod_from_ones)

lemma count_trades_zero_signals:
  assumes "\<forall>r\<in>set df. signal r = 0"
  shows "count_trades (signals df) = 0"
proof -
  have "signals df = map (\<lambda>i. Fin (real_of_int i)) (map signal df)"
    by (simp add: signals_def)
  moreover have "filter (\<lambda>t. map signal df ! t \<noteq> map signal df ! (t - 1)) [1..<length (map signal df)] = []"
    using assms by (auto simp: filter_empty_conv)
  ultimately show ?thesis by (simp only: count_trades_int) simp
qed

text \<open>The record computed when every realized return is zero.\<close>

lemma calculate_metrics_all_zero:
  assumes "dropna returns = replicate n (Fin 0)" and "0 < n" and "equity \<noteq> []"
  shows "calculate_metrics returns equity sigs =
     Inr \<lparr>total_return = Fin 0, annual_return = Fin 0, sharpe_ratio = Fin 0,
          max_drawdown = foldl fmin_np (hd (drawdown equity)) (tl (drawdown equity)),
          win_rate = Fin 0,
          total_trades = (case sigs of Some s \<Rightarrow> count_trades s | None \<Rightarrow> 0),
          profit_factor = PInf, avg_trade_return = Fin 0\<rparr>"
proof -
  have ne: "replicate n (Fin 0) \<noteq> []" using assms(2) by simp
  show ?thesis
    unfolding calculate_metrics_nonempty [OF assms(1) ne assms(3)]
    using volatility_all_zero [of n]
    by (simp add: fprod_replicate_one fsub_def fgt_def fne_def list_ex_iff split: option.splits)
qed

lemma spec_max_drawdown_const: "0 < c \<Longrightarrow> spec_max_drawdown (replicate n c) = 0"
  using spec_max_drawdown_bound [of "replicate n c"]
  by (cases n) (simp_all add: sorted_replicate)

text \<open>A run whose signal is 0 at every bar.\<close>

lemma run_zero_signals:
  assumes "calculate strat bars = Inr df" and "df \<noteq> []" and "\<forall>r\<in>set df. signal r = 0"
    and "0 < initial_capital eng"
  shows "run eng bars strat =
     Inr \<lparr>strategy_name = name strat, res_params = params strat,
          res_metrics = \<lparr>total_return = Fin 0, annual_return = Fin 0, sharpe_ratio = Fin 0,
                          max_drawdown = Fin 0, win_rate = Fin 0, total_trades = 0,
                          profit_factor = PInf, avg_trade_return = Fin 0\<rparr>,
          hodl_return = calculate_hodl_return bars,
          res_equity_curve = map Fin (replicate (length df) (initial_capital eng)),
          res_signals = signals df, res_df = df\<rparr>"
proof -
  let ?es = "replicate (length df) (initial_capital eng)"
  have n: "0 < length df" using assms(2) by simp
  have d: "dropna (strategy_returns eng df) = replicate (length df) (Fin 0)"
    by (simp add: strategy_returns_zero_signals [OF assms(3)] dropna_def)
  have ne: "?es \<noteq> []" using assms(2) by simp
  have h: "0 < hd ?es" using assms(2,4) by (cases df) simp_all
  have e: "map Fin ?es \<noteq> []" using ne by simp
  have "array_min (drawdown (map Fin ?es)) = Inr (Fin 0)"
    using array_min_drawdown_fin [OF ne h] spec_max_drawdown_const [OF assms(4)] by simp
  then have m: "foldl fmin_np (hd (drawdown (map Fin ?es))) (tl (drawdown (map Fin ?es))) = Fin 0"
    using array_min_nonempty [OF drawdown_nonempty [OF e]] by simp
  have "calculate_metrics (strategy_returns eng df) (equity_curve eng df) (Some (signals df))
        = Inr \<lparr>total_return = Fin 0, annual_return = Fin 0, sharpe_ratio = Fin 0,
               max_drawdown = Fin 0, win_rate = Fin 0, total_trades = 0,
               profit_factor = PInf, avg_trade_return = Fin 0\<rparr>"
    unfolding equity_curve_zero_signals [OF assms(3)] calculate_metrics_all_zero [OF d n e] m
    by (simp add: count_trades_zero_signals [OF assms(3)])
  then show ?thesis
    using run_unfold [OF assms(1)] by (simp add: equity_curve_zero_signals [OF assms(3)])
qed

subsection \<open>Summary rows and the result table\<close>

lemma map_of_foldl_update:
  "map_of (foldl (\<lambda>d (k, v). AList.update k v d) d kvs) = map_of (rev kvs @ d)"
proof (induction kvs arbitrary: d)
  case Nil
  then show ?case by simp
next
  case (Cons kv kvs)
  obtain k v where kv: "kv = (k, v)" by (cases kv)
  show ?case by (simp add: kv Cons.IH AList.update_conv')
qed

lemma map_of_dict_of: "map_of (dict_of kvs) = map_of (rev kvs)"
  by (simp add: dict_of_def map_of_foldl_update)

lemma metrics_to_dict_cell:
  "c \<in> set (butlast metric_columns) \<Longrightarrow> \<exists>v. map_of (rev (metrics_to_dict m)) c = Some v"
  by (auto simp: metric_columns_def metrics_to_dict_def)

lemma summary_metric_cell:
  assumes "c \<in> set metric_columns"
  shows "\<exists>v. map_of (summary r) c = Some v"
proof (cases "c = ''hodl_return''")
  case True
  then show ?thesis by (simp add: summary_def map_of_dict_of)
next
  case False
  then have "c \<in> set (butlast metric_columns)"
    using assms by (auto simp: metric_columns_def)
  then obtain v where "map_of (rev (metrics_to_dict (res_metrics r))) c = Some v"
    using metrics_to_dict_cell by blast
  then show ?thesis using False
    by (simp add: summary_def map_of_dict_of map_add_def)
qed

lemma collect_results_summaries:
  "row \<in> set (collect_results eng df cls names combos) \<Longrightarrow> \<exists>res. row = summary res"
  by (induction combos) (auto split: sum.splits)

lemma set_columns_of: "set (columns_of results) = (\<Union>r\<in>set results. fst ` set r)"
  by (auto simp: columns_of_def)

lemma metric_column_present:
  assumes "\<forall>row\<in>set results. \<exists>res. row = summary res" and "c \<in> set metric_columns"
    and "results \<noteq> []"
  shows "c \<in> set (columns_of results)"
proof -
  obtain r where r: "r \<in> set results" using assms(3) by (cases results) auto
  then obtain res where "r = summary res" using assms(1) by blast
  then obtain v where "map_of r c = Some v" using summary_metric_cell [OF assms(2)] by blast
  then have "c \<in> fst ` set r" by (metis map_of_SomeD fst_conv image_eqI)
  then show ?thesis using r by (auto simp: set_columns_of)
qed

lemma grid_search_metric_column:
  assumes "c \<in> set metric_columns"
  shows "grid_search sv eng df cls grid c =
     (let results = collect_results eng df cls (map fst grid) (product_lists (map snd grid))
      in if results = [] then [] else sv c (data_frame results))"
  using metric_column_present [OF _ assms] collect_results_summaries
  by (auto simp: grid_search_def Let_def)

subsection \<open>Tables whose rows have the same keys\<close>

lemma remdups_concat_replicate:
  "distinct zs \<Longrightarrow> 0 < n \<Longrightarrow> remdups (concat (replicate n zs)) = zs"
proof (induction n)
  case 0
  then show ?case by simp
next
  case (Suc n)
  show ?case
  proof (cases "n = 0")
    case True
    then show ?thesis using Suc.prems by simp
  next
    case False
    then have "set zs \<subseteq> set (concat (replicate n zs))" by auto
    then have "filter (\<lambda>x. x \<notin> set (concat (replicate n zs))) zs = []"
      by (auto simp: filter_empty_conv)
    then show ?thesis using Suc False by (simp add: remdups_append)
  qed
qed

lemma columns_of_same_keys:
  assumes "rows \<noteq> []" and "\<forall>r\<in>set rows. map fst r = ks" and "distinct ks"
  shows "columns_of rows = ks"
proof -
  have "map (map fst) rows = replicate (length rows) ks"
    using assms(2) by (induction rows) simp_all
  then have "rev (concat (map (map fst) rows)) = concat (replicate (length rows) (rev ks))"
    by (simp add: rev_concat rev_map map_replicate)
  then show ?thesis using assms(1,3)
    by (simp add: columns_of_def remdups_concat_replicate)
qed

lemma frame_row_same_keys:
  assumes "distinct (map fst r)"
  shows "map (\<lambda>c. (c, case map_of r c of Some v \<Rightarrow> v | None \<Rightarrow> d)) (map fst r) = r"
proof -
  have "(fst kv, case map_of r (fst kv) of Some v \<Rightarrow> v | None \<Rightarrow> d) = kv" if "kv \<in> set r" for kv
  proof -
    have "map_of r (fst kv) = Some (snd kv)" using assms that by simp
    then show ?thesis by simp
  qed
  then show ?thesis unfolding map_map o_def by (intro map_idI)
qed

lemma data_frame_same_keys:
  assumes "rows \<noteq> []" and "\<forall>r\<in>set rows. map fst r = ks" and "distinct ks"
  shows "data_frame rows = rows"
  unfolding data_frame_def columns_of_same_keys [OF assms]
proof (intro map_idI)
  fix r assume "r \<in> set rows"
  then have "map fst r = ks" using assms(2) by blast
  then show "map (\<lambda>c. (c, case map_of r c of Some v \<Rightarrow> v | None \<Rightarrow> PFloat NaN)) ks = r"
    using frame_row_same_keys [of r "PFloat NaN"] assms(3) by simp
qed

subsection \<open>A run returns once the strategy has\<close>

lemma length_cumprod_from [simp]: "length (cumprod_from a xs) = length xs"
  by (induction xs arbitrary: a) simp_all

lemma length_equity_curve [simp]: "length (equity_curve eng df) = length df"
  by (simp add: equity_curve_def cumprod_def)

text \<open>Once \<open>calculate\<close> has returned a frame, the run returns a result.\<close>

lemma run_total:
  assumes "calculate strat bars = Inr df"
  shows "\<exists>m. run eng bars strat =
     Inr \<lparr>strategy_name = name strat, res_params = params strat, res_metrics = m,
          hodl_return = calculate_hodl_return bars,
          res_equity_curve = equity_curve eng df,
          res_signals = signals df, res_df = df\<rparr>"
proof -
  have "\<exists>m. calculate_metrics (strategy_returns eng df) (equity_curve eng df) (Some (signals df)) = Inr m"
  proof (cases "dropna (strategy_returns eng df) = []")
    case True
    then show ?thesis by (simp add: calculate_metrics_empty)
  next
    case False
    then have "strategy_returns eng df \<noteq> []" by (auto simp: dropna_def)
    then have "df \<noteq> []" by auto
    then have "equity_curve eng df \<noteq> []"
      using length_equity_curve [of eng df] by (metis length_0_conv)
    then show ?thesis using calculate_metrics_nonempty [OF refl False] by blast
  qed
  then show ?thesis using run_unfold [OF assms] by blast
qed

lemma run_signals:
  "calculate strat bars = Inr df \<Longrightarrow> map_sum id res_signals (run eng bars strat) = Inr (signals df)"
  using run_total [of strat bars df eng] by auto

subsection \<open>Walk-forward on the example bars\<close>

lemma ema_flat4: "1 \<le> s \<Longrightarrow> ema [100, 100, 100, 100] (PInt s) = Inr [100, 100, 100, 100]"
  by (simp add: ema_def algebra_simps)

lemma rsi_flat4:
  "rsi [100, 100, 100, 100] (PInt 2) = Inr [NaN, NaN, NaN, NaN]"
  "rsi [100, 100, 100, 100] (PInt 3) = Inr [NaN, NaN, NaN, NaN]"
  by (simp_all add: rsi_def rolling_mean_def Let_def diff1_def shift1_def fsub_def upt4 fgt_def
      fsum_def sgn_inf_def)

lemma rsi_rise_3: "rsi [100, 110, 120, 130] (PInt 3) = Inr [NaN, NaN, Fin 100, Fin 100]"
  by (simp add: rsi_def rolling_mean_def Let_def diff1_def shift1_def fsub_def upt4 fgt_def
      fsum_def sgn_inf_def)

lemma wf_split:
  "py_int (real (length bars_wf) * (1 / 2)) = 4"
  "iloc_to 4 bars_wf = [mk_bar 0 100, mk_bar 1 100, mk_bar 2 100, mk_bar 3 100]"
  "iloc_from 4 bars_wf = [mk_bar 4 100, mk_bar 5 110, mk_bar 6 120, mk_bar 7 130]"
  by (simp_all add: bars_wf_def py_int_def iloc_to_def iloc_from_def)

lemma wf_class:
  "EMACrossStrategy (dict_of (zip [''rsi_period''] [PInt p]))
   = Inr (ema_cross_strategy (ema_cross_defaults\<lparr>rsi_period := PInt p\<rparr>))"
  "EMACrossStrategy [(''rsi_period'', PInt p)]
   = Inr (ema_cross_strategy (ema_cross_defaults\<lparr>rsi_period := PInt p\<rparr>))"
  "EMACrossStrategy [] = Inr (ema_cross_strategy ema_cross_defaults)"
  by (simp_all add: EMACrossStrategy_def dict_of_def)

lemma wf_calc_train:
  "p = 2 \<or> p = 3 \<Longrightarrow>
   ema_cross_calculate (ema_cross_defaults\<lparr>rsi_period := PInt p\<rparr>)
     [mk_bar 0 100, mk_bar 1 100, mk_bar 2 100, mk_bar 3 100]
   = Inr (mk_frame [100, 100, 100, 100] [0, 0, 0, 0])"
  unfolding ema_cross_calculate_def Let_def
  by (auto simp: mk_bar_def ema_cross_defaults_def ema_flat4 rsi_flat4
      base_signal_def uptrend_def suppress_long_def rsi_ok_def fgt_def)

lemma wf_calc_test:
  "ema_cross_calculate ema_cross_defaults
     [mk_bar 4 100, mk_bar 5 110, mk_bar 6 120, mk_bar 7 130]
   = Inr (mk_frame [100, 110, 120, 130] [0, 0, 0, 0])"
  "ema_cross_calculate (ema_cross_defaults\<lparr>rsi_period := PInt 2\<rparr>)
     [mk_bar 4 100, mk_bar 5 110, mk_bar 6 120, mk_bar 7 130]
   = Inr (mk_frame [100, 110, 120, 130] [0, 1, 1, 1])"
  "ema_cross_calculate (ema_cross_defaults\<lparr>rsi_period := PInt 3\<rparr>)
     [mk_bar 4 100, mk_bar 5 110, mk_bar 6 120, mk_bar 7 130]
   = Inr (mk_frame [100, 110, 120, 130] [0, 0, 1, 1])"
  unfolding ema_cross_calculate_def Let_def
  by (simp_all add: mk_bar_def ema_cross_defaults_def ema_rise_5 ema_rise_20 ema_rise_60
      rsi_rise_14 rsi_rise_2 rsi_rise_3
      base_signal_def uptrend_def suppress_long_def rsi_ok_def fgt_def)

lemma wf_run_train:
  assumes "p = 2 \<or> p = 3"
  shows "map_sum id summary
           (run default_engine [mk_bar 0 100, mk_bar 1 100, mk_bar 2 100, mk_bar 3 100]
              (ema_cross_strategy (ema_cross_defaults\<lparr>rsi_period := PInt p\<rparr>)))
         = Inr wf_row"
proof -
  let ?st = "ema_cross_strategy (ema_cross_defaults\<lparr>rsi_period := PInt p\<rparr>)"
  let ?bars = "[mk_bar 0 100, mk_bar 1 100, mk_bar 2 100, mk_bar 3 100]"
  have c: "calculate ?st ?bars = Inr (mk_frame [100, 100, 100, 100] [0, 0, 0, 0])"
    using wf_calc_train [OF assms] by (simp add: ema_cross_strategy_def)
  have z: "mk_frame [100, 100, 100, 100] [0, 0, 0, 0] \<noteq> []"
    "\<forall>r\<in>set (mk_frame [100, 100, 100, 100] [0, 0, 0, 0]). signal r = 0"
    "0 < initial_capital default_engine"
    by (simp_all add: mk_frame_def default_engine_def)
  have h: "calculate_hodl_return ?bars = Fin 0"
    by (simp add: calculate_hodl_return_def mk_bar_def fsub_def)
  show ?thesis
    unfolding run_zero_signals [OF c z]
    by (simp add: summary_def h ema_cross_strategy_def ema_cross_defaults_def metrics_to_dict_def
        wf_row_def dict_of_def)
qed

lemma wf_collect:
  "collect_results default_engine [mk_bar 0 100, mk_bar 1 100, mk_bar 2 100, mk_bar 3 100]
     EMACrossStrategy (map fst wf_grid) (product_lists (map snd wf_grid)) = [wf_row, wf_row]"
proof -
  obtain r2 where r2: "run default_engine [mk_bar 0 100, mk_bar 1 100, mk_bar 2 100, mk_bar 3 100]
              (ema_cross_strategy (ema_cross_defaults\<lparr>rsi_period := PInt 2\<rparr>)) = Inr r2"
    and s2: "summary r2 = wf_row"
    using wf_run_train [of 2] by (auto simp: map_sum_def split: sum.splits)
  obtain r3 where r3: "run default_engine [mk_bar 0 100, mk_bar 1 100, mk_bar 2 100, mk_bar 3 100]
              (ema_cross_strategy (ema_cross_defaults\<lparr>rsi_period := PInt 3\<rparr>)) = Inr r3"
    and s3: "summary r3 = wf_row"
    using wf_run_train [of 3] by (auto simp: map_sum_def split: sum.splits)
  have "product_lists (map snd wf_grid) = [PInt 2] # [PInt 3] # []" by (simp add: wf_grid_def)
  moreover have "map fst wf_grid = [''rsi_period'']" by (simp add: wf_grid_def)
  ultimately show ?thesis
    by (simp add: wf_class r2 s2 r3 s3 del: zip_Cons_Cons)
qed

lemma wf_row_keys:
  "map fst wf_row =
     [''strategy'', ''short_period'', ''long_period'', ''trend_period'', ''rsi_threshold'',
      ''use_trend_filter'', ''use_rsi_filter'', ''total_return'', ''annual_return'',
      ''sharpe_ratio'', ''max_drawdown'', ''win_rate'', ''total_trades'', ''profit_factor'',
      ''avg_trade_return'', ''hodl_return'']"
  by (simp add: wf_row_def)

lemma wf_train_results:
  "grid_search sort_values_stable default_engine
     [mk_bar 0 100, mk_bar 1 100, mk_bar 2 100, mk_bar 3 100] EMACrossStrategy wf_grid
     ''sharpe_ratio'' = [wf_row, wf_row]"
proof -
  have m: "''sharpe_ratio'' \<in> set metric_columns" by (simp add: metric_columns_def)
  have d: "data_frame [wf_row, wf_row] = [wf_row, wf_row]"
    by (rule data_frame_same_keys [OF _ _ _]) (auto simp: wf_row_keys)
  show ?thesis
    unfolding grid_search_metric_column [OF m] wf_collect Let_def d
    by (simp add: sort_values_stable_def)
qed

lemma wf_best_params: "best_params_of wf_row (map fst wf_grid) = Inr []"
  by (simp add: wf_row_def wf_grid_def)

lemma wf_run_test:
  "run default_engine [mk_bar 4 100, mk_bar 5 110, mk_bar 6 120, mk_bar 7 130]
     (ema_cross_strategy ema_cross_defaults) = Inr wf_test_result"
proof -
  let ?st = "ema_cross_strategy ema_cross_defaults"
  let ?bars = "[mk_bar 4 100, mk_bar 5 110, mk_bar 6 120, mk_bar 7 130]"
  have c: "calculate ?st ?bars = Inr (mk_frame [100, 110, 120, 130] [0, 0, 0, 0])"
    using wf_calc_test(1) by (simp add: ema_cross_strategy_def)
  have z: "mk_frame [100, 110, 120, 130] [0, 0, 0, 0] \<noteq> []"
    "\<forall>r\<in>set (mk_frame [100, 110, 120, 130] [0, 0, 0, 0]). signal r = 0"
    "0 < initial_capital default_engine"
    by (simp_all add: mk_frame_def default_engine_def)
  have h: "calculate_hodl_return ?bars = Fin (3 / 10)"
    by (simp add: calculate_hodl_return_def mk_bar_def fsub_def)
  show ?thesis
    unfolding run_zero_signals [OF c z]
    by (simp add: h ema_cross_strategy_def ema_cross_defaults_def wf_test_result_def
        zero_trade_metrics_def default_engine_def mk_frame_def signals_def)
qed

subsection \<open>Walk-forward in general\<close>

text \<open>
  The split of \<open>walk_forward\<close> for a train ratio strictly between 0 and 1, with the product
  \<open>len(df) * train_ratio\<close> taken exactly (see \<open>py_int\<close>).
\<close>

lemma walk_forward_split:
  assumes "0 < r" and "r < 1" and "k = py_int (real (length df) * r)"
  shows "k = \<lfloor>real (length df) * r\<rfloor>"
    and "iloc_to k df @ iloc_from k df = df"
    and "length (iloc_to k df) = nat \<lfloor>real (length df) * r\<rfloor>"
    and "length (iloc_from k df) = length df - nat \<lfloor>real (length df) * r\<rfloor>"
proof -
  have nn: "0 \<le> real (length df) * r" using assms(1) by simp
  then show k: "k = \<lfloor>real (length df) * r\<rfloor>" by (simp add: assms(3) py_int_def)
  have k0: "0 \<le> k" using nn k by simp
  have "real (length df) * r \<le> real (length df)"
    using assms(1,2) by (simp add: mult_left_le)
  then have "k \<le> int (length df)" using k by (simp add: floor_le_iff)
  then have le: "nat k \<le> length df" using k0 by simp
  show "iloc_to k df @ iloc_from k df = df" using k0 by (simp add: iloc_to_def iloc_from_def)
  show "length (iloc_to k df) = nat \<lfloor>real (length df) * r\<rfloor>"
    using k0 le k by (simp add: iloc_to_def)
  show "length (iloc_from k df) = length df - nat \<lfloor>real (length df) * r\<rfloor>"
    using k0 k by (simp add: iloc_from_def)
qed

lemma walk_forward_split_half:
  assumes "length df = 100"
  shows "length (iloc_to (py_int (real (length df) * (1 / 2))) df) = 50
       \<and> length (iloc_from (py_int (real (length df) * (1 / 2))) df) = 50"
  by (simp add: assms py_int_def iloc_to_def iloc_from_def)

text \<open>
  A report of \<open>walk_forward\<close>: the grid search ran on the train prefix, the parameters are
  the entries of its top row for the keys of the grid, and the test result is one run of
  the strategy built from them on the test suffix.
\<close>

lemma walk_forward_report:
  assumes "walk_forward sv eng df cls grid r = Inr (Report rep)"
    and "k = py_int (real (length df) * r)"
  shows "\<exists>row rest strat.
           grid_search sv eng (iloc_to k df) cls grid ''sharpe_ratio'' = row # rest
         \<and> best_params_of row (map fst grid) = Inr (best_params rep)
         \<and> cls (best_params rep) = Inr strat
         \<and> run eng (iloc_from k df) strat = Inr (test_result rep)"
proof -
  let ?tr = "grid_search sv eng (iloc_to k df) cls grid ''sharpe_ratio''"
  have ne: "?tr \<noteq> []"
    using assms by (auto simp: walk_forward_def Let_def split: if_splits)
  then obtain row rest where rr: "?tr = row # rest" by (cases ?tr) auto
  have "ebind (best_params_of row (map fst grid)) (\<lambda>bp.
           ebind (cls bp) (\<lambda>strat.
           ebind (run eng (iloc_from k df) strat) (\<lambda>tr.
           ebind (period_of (iloc_to k df)) (\<lambda>trp.
           ebind (period_of (iloc_from k df)) (\<lambda>tep.
           ebind (row_float row ''sharpe_ratio'') (\<lambda>sh.
           ebind (row_float row ''total_return'') (\<lambda>ret.
             Inr (Report \<lparr>train_period = trp, test_period = tep, best_params = bp,
                           train_sharpe = sh, train_return = ret, test_result = tr\<rparr>))))))))
        = Inr (Report rep)"
    using assms(1) rr unfolding walk_forward_def Let_def assms(2) [symmetric] by simp
  then obtain bp strat tr trp tep sh ret where
    "best_params_of row (map fst grid) = Inr bp" "cls bp = Inr strat"
    "run eng (iloc_from k df) strat = Inr tr"
    "Report \<lparr>train_period = trp, test_period = tep, best_params = bp,
             train_sharpe = sh, train_return = ret, test_result = tr\<rparr> = Report rep"
    by (auto dest!: ebind_Inr)
  then show ?thesis using rr by auto
qed

subsection \<open>The trades of a run\<close>

lemma dropna_fillna0: "dropna (fillna0 xs) = fillna0 xs"
  by (induction xs) (simp_all add: dropna_def fillna0_def)

lemma dropna_strategy_returns: "dropna (strategy_returns eng df) = strategy_returns eng df"
  by (simp add: strategy_returns_def dropna_fillna0)

lemma count_trades_Nil: "count_trades [] = 0"
  by (simp add: count_trades_def diff1_def fillna0_def)

lemma run_total_trades:
  assumes "calculate strat bars = Inr df"
  shows "\<exists>res. run eng bars strat = Inr res
           \<and> total_trades (res_metrics res) = count_trades (signals df)"
proof (cases "df = []")
  case True
  then have "calculate_metrics (strategy_returns eng df) (equity_curve eng df) (Some (signals df))
             = Inr zero_metrics"
    by (simp add: calculate_metrics_empty dropna_def)
  then show ?thesis
    using run_unfold [OF assms] True by (simp add: zero_metrics_def signals_def count_trades_Nil)
next
  case False
  then have d: "dropna (strategy_returns eng df) \<noteq> []"
    using length_strategy_returns [of eng df] unfolding dropna_strategy_returns
    by (metis length_0_conv)
  have e: "equity_curve eng df \<noteq> []"
    using False length_equity_curve [of eng df] by (metis length_0_conv)
  show ?thesis
    using run_unfold [OF assms calculate_metrics_nonempty [OF refl d e]] by simp
qed

section \<open>The claims\<close>

subsection \<open>C1: the one-bar lag\<close>

text \<open>
  C1, as stated: two frames with the same closes whose signals agree everywhere except at
  bar \<open>t\<close> are credited the same strategy return at bar \<open>t\<close>. The engine does not
  satisfy this: the cost term of bar \<open>t\<close> is \<open>|signal[t] - signal[t-1]| * total_cost\<close>, which
  reads \<open>signal[t]\<close>. With closes \<open>[100, 100]\<close>, fee and slippage of 0.1% each, the
  signals \<open>[0, 0]\<close> give return 0 at bar 1 and the signals \<open>[0, 1]\<close> give -0.002.
\<close>

theorem lag_invariant_counterexample:
  "length lag_df' = length lag_df
   \<and> map close lag_df' = map close lag_df
   \<and> signal (lag_df' ! 0) = signal (lag_df ! 0)
   \<and> strategy_returns default_engine lag_df ! 1 = Fin 0
   \<and> strategy_returns default_engine lag_df' ! 1 = Fin (- (1 / 500))
   \<and> strategy_returns default_engine lag_df' ! 1 \<noteq> strategy_returns default_engine lag_df ! 1"
  by (simp add: lag_df_def lag_df'_def default_engine_def strategy_returns_def strategy_returns_raw_def gross_returns_def
      position_changes_def pct_change_def diff1_def shift1_def closes_def signals_def
      fillna0_def fsub_def total_cost_def)

text \<open>
  C1, amended: if two frames have the same closes up to and including bar \<open>t\<close> and the
  same signals before bar \<open>t\<close>, then the price-return term
  \<open>price_return[t] * signal[t-1]\<close> of bar \<open>t\<close> is the same in both, and the strategy
  return of bar \<open>t\<close> is the same in both whenever the total cost rate is zero or the
  position change at \<open>t\<close> is the same: \<open>signal[t]\<close> enters the return of bar \<open>t\<close> only
  through the transaction cost.
\<close>

theorem strategy_return_lag:
  assumes "t < length df" and "t < length df'"
    and "\<forall>i\<le>t. close (df' ! i) = close (df ! i)"
    and "\<forall>i<t. signal (df' ! i) = signal (df ! i)"
  shows "gross_returns df' ! t = gross_returns df ! t
       \<and> (total_cost eng = 0 \<or> position_changes df' ! t = position_changes df ! t
            \<longrightarrow> strategy_returns eng df' ! t = strategy_returns eng df ! t)"
proof -
  have c: "close (df' ! t) = close (df ! t)" using assms(3) by simp
  have g: "gross_returns df' ! t = gross_returns df ! t"
  proof (cases "t = 0")
    case True
    then show ?thesis using assms(1,2) by (simp add: gross_returns_0)
  next
    case False
    then have "close (df' ! (t - 1)) = close (df ! (t - 1))"
      and "signal (df' ! (t - 1)) = signal (df ! (t - 1))"
      using assms(3,4) by simp_all
    then show ?thesis using False assms(1,2) c
      by (simp add: gross_returns_nth shift1_nth closes_def signals_def less_imp_diff_less)
  qed
  have p: "\<exists>x. position_changes df ! t = Fin x" "\<exists>x. position_changes df' ! t = Fin x"
    using assms(1,2) by (simp_all add: position_changes_nth)
  have z: "strategy_returns eng df' ! t = strategy_returns eng df ! t" if "total_cost eng = 0"
    using that p g assms(1,2) by (auto simp: strategy_returns_nth)
  have e: "strategy_returns eng df' ! t = strategy_returns eng df ! t"
    if "position_changes df' ! t = position_changes df ! t"
    using that g assms(1,2) by (simp add: strategy_returns_nth)
  show ?thesis using g z e by blast
qed

theorem strategy_return_lag_witness:
  "gross_returns lag_df' ! 1 = gross_returns lag_df ! 1
   \<and> strategy_returns (default_engine\<lparr>fee_rate := 0, slippage := 0\<rparr>) lag_df' ! 1
       = strategy_returns (default_engine\<lparr>fee_rate := 0, slippage := 0\<rparr>) lag_df ! 1"
proof -
  have a: "(1::nat) < length lag_df" "(1::nat) < length lag_df'"
    by (simp_all add: lag_df_def lag_df'_def)
  have b: "\<forall>i\<le>1. close (lag_df' ! i) = close (lag_df ! i)"
    by (simp add: lag_df_def lag_df'_def le_Suc_eq)
  have c: "\<forall>i<1. signal (lag_df' ! i) = signal (lag_df ! i)"
    by (simp add: lag_df_def lag_df'_def)
  have d: "total_cost (default_engine\<lparr>fee_rate := 0, slippage := 0\<rparr>) = 0"
    by (simp add: total_cost_def)
  show ?thesis
    using strategy_return_lag [OF a b c, of "default_engine\<lparr>fee_rate := 0, slippage := 0\<rparr>"] d
    by blast
qed

subsection \<open>C2: the strategy return and the equity curve\<close>

text \<open>
  C2: on a frame whose closes are non-zero, the strategy return at every bar \<open>t \<ge> 1\<close> is
  \<open>(close[t] / close[t-1] - 1) * signal[t-1] - |signal[t] - signal[t-1]| * (fee_rate + slippage)\<close>
  and 0 at bar 0, where the position change is 0; the equity curve at bar \<open>t\<close> is the
  initial capital times the product of \<open>1 + strategy_return\<close> over the bars up to \<open>t\<close>,
  it equals the initial capital at bar 0 and has one value per bar. (The equity curve of
  the result of \<open>run\<close> is this series: lemma \<open>run_total\<close>.)
\<close>

theorem run_return_and_equity_formula:
  assumes "\<forall>r\<in>set df. close r \<noteq> 0" and "t < length df"
  shows "strategy_returns eng df ! t = Fin (spec_strategy_return eng df t)
       \<and> equity_curve eng df ! t = Fin (spec_equity eng df t)
       \<and> position_changes df ! 0 = Fin 0
       \<and> equity_curve eng df ! 0 = Fin (initial_capital eng)
       \<and> length (equity_curve eng df) = length df"
proof -
  have "df \<noteq> []" using assms(2) by auto
  then show ?thesis using assms(2)
    by (simp add: strategy_returns_fin [OF assms(1)] equity_curve_fin [OF assms(1)]
        position_changes_nth spec_equity_def spec_strategy_return_def)
qed

theorem run_return_and_equity_formula_witness:
  "strategy_returns default_engine lag_df' ! 1 = Fin (- (1 / 500))
   \<and> equity_curve default_engine lag_df' ! 1 = Fin 9980000
   \<and> equity_curve default_engine lag_df' ! 0 = Fin 10000000"
proof -
  have a: "\<forall>r\<in>set lag_df'. close r \<noteq> 0" by (simp add: lag_df'_def)
  have b: "(1::nat) < length lag_df'" by (simp add: lag_df'_def)
  have c: "spec_strategy_return default_engine lag_df' 1 = - (1 / 500)"
    by (simp add: spec_strategy_return_def lag_df'_def default_engine_def)
  have d: "spec_equity default_engine lag_df' 1 = 9980000"
    by (simp add: spec_equity_def spec_strategy_return_def lag_df'_def default_engine_def)
  show ?thesis
    using run_return_and_equity_formula [OF a b, of default_engine] c d
    by (simp add: default_engine_def)
qed

subsection \<open>C3: the observation count of the annualization\<close>

text \<open>
  C3 says that the undefined leading value of the strategy-return series counts as a zero
  return for the equity curve but is left out of the observation count \<open>n\<close> of
  \<open>annual_return = (1 + total_return) ** (365 / n) - 1\<close>. The engine fills the series
  with zeros before it hands it to the metrics calculator, so \<open>dropna\<close> removes nothing
  there and \<open>n\<close> is the full bar count. On the two bars with closes 100 and 110 held long
  throughout, the unfilled series has one defined value, the frame has two rows, the
  total return is 0.1 and the annual return is \<open>1.1 ** (365 / 2) - 1\<close>, which differs from
  \<open>1.1 ** (365 / 1) - 1\<close>.
\<close>

theorem annual_return_counts_filled_bar:
  "map_sum id (length \<circ> dropna \<circ> strategy_returns_raw default_engine \<circ> res_df)
       (run default_engine bars_up hold_long) = Inr 1
   \<and> map_sum id (length \<circ> res_df) (run default_engine bars_up hold_long) = Inr 2
   \<and> map_sum id (total_return \<circ> res_metrics) (run default_engine bars_up hold_long)
       = Inr (Fin (1 / 10))
   \<and> map_sum id (annual_return \<circ> res_metrics) (run default_engine bars_up hold_long)
       = Inr (Fin ((1 + 1 / 10) powr (365 / 2) - 1))
   \<and> (1 + 1 / 10) powr (365 / 2) - 1 \<noteq> (1 + 1 / 10) powr (365 / 1) - (1::real)"
proof -
  have c: "calculate hold_long bars_up = Inr [\<lparr>close = 100, signal = 1\<rparr>, \<lparr>close = 110, signal = 1\<rparr>]"
    by (simp add: hold_long_def bars_up_def mk_bar_def)
  have d: "dropna [Fin 0, Fin (1 / 10)] = [Fin 0, Fin (1 / 10)]" by (simp add: dropna_def)
  obtain m where m: "calculate_metrics [Fin 0, Fin (1 / 10)] [Fin 10000000, Fin 11000000]
      (Some (signals [\<lparr>close = 100, signal = 1\<rparr>, \<lparr>close = 110, signal = 1\<rparr>])) = Inr m"
    using calculate_metrics_nonempty [OF d] by blast
  note f = calculate_metrics_fields [OF d _ _ m]
  have t: "total_return m = Fin (1 / 10)" by (simp add: f(1) fprod_def fsub_def)
  have a: "annual_return m = Fin ((1 + 1 / 10) powr (365 / 2) - 1)"
    by (simp add: f(2) t fgt_def fsub_def)
  have r: "run default_engine bars_up hold_long = Inr \<lparr>strategy_name = name hold_long, res_params = params hold_long, res_metrics = m,
          hodl_return = calculate_hodl_return bars_up,
          res_equity_curve = equity_curve default_engine [\<lparr>close = 100, signal = 1\<rparr>, \<lparr>close = 110, signal = 1\<rparr>],
          res_signals = signals [\<lparr>close = 100, signal = 1\<rparr>, \<lparr>close = 110, signal = 1\<rparr>],
          res_df = [\<lparr>close = 100, signal = 1\<rparr>, \<lparr>close = 110, signal = 1\<rparr>]\<rparr>"
    by (rule run_unfold [OF c]) (simp add: sr_up eq_up m)
  have n: "length (dropna (strategy_returns_raw default_engine [\<lparr>close = 100, signal = 1\<rparr>, \<lparr>close = 110, signal = 1\<rparr>])) = 1"
    by (simp add: run_eval_defs dropna_def default_engine_def)
  have p: "(11 / 10) powr (365 / 2) \<noteq> (11 / 10) powr (365::real)"
    by (subst powr_inj) simp_all
  show ?thesis using p by (simp add: r t a n)
qed

subsection \<open>C4: the walk-forward split and the test evaluation\<close>

text \<open>
  C4 says that \<open>walk_forward\<close> evaluates the test suffix once, with the best parameter
  combination selected on the train prefix. The split at \<open>floor(len * train_ratio)\<close> (of
  the exact product, which is what float64 computes for \<open>train_ratio = 0.5\<close>), the grid
  search on the train prefix alone and the single test run hold (lemmas
  \<open>walk_forward_split\<close>, \<open>walk_forward_split_half\<close> and \<open>walk_forward_report\<close>), but the
  parameters of the test run are read back from the top row of the result table, and a row
  holds only what the strategy's \<open>params\<close> property reports. \<open>EMACrossStrategy.params\<close> has no
  entry for \<open>rsi_period\<close>: with the grid \<open>{"rsi_period": [2, 3]}\<close> on eight bars (four flat,
  then rising) and \<open>train_ratio = 0.5\<close>, the reported best parameters are empty and the test
  suffix is run with the default \<open>rsi_period = 14\<close>, which never goes long there, while both
  combinations of the grid do. (The two rows of the train table are equal, so the order in
  which the sort leaves them plays no role.)
\<close>

theorem walk_forward_drops_rsi_period:
  "walk_forward sort_values_stable default_engine bars_wf EMACrossStrategy wf_grid (1 / 2)
     = Inr (Report \<lparr>train_period = (0, 3), test_period = (4, 7), best_params = [],
                     train_sharpe = Fin 0, train_return = Fin 0,
                     test_result = wf_test_result\<rparr>)
   \<and> res_signals wf_test_result = [Fin 0, Fin 0, Fin 0, Fin 0]
   \<and> map_sum id res_signals
        (ebind (EMACrossStrategy [(''rsi_period'', PInt 2)])
           (run default_engine (iloc_from 4 bars_wf)))
       = Inr [Fin 0, Fin 1, Fin 1, Fin 1]
   \<and> map_sum id res_signals
        (ebind (EMACrossStrategy [(''rsi_period'', PInt 3)])
           (run default_engine (iloc_from 4 bars_wf)))
       = Inr [Fin 0, Fin 0, Fin 1, Fin 1]"
proof -
  have p: "period_of [mk_bar 0 100, mk_bar 1 100, mk_bar 2 100, mk_bar 3 100] = Inr (0, 3)"
    "period_of [mk_bar 4 100, mk_bar 5 110, mk_bar 6 120, mk_bar 7 130] = Inr (4, 7)"
    by (simp_all add: period_of_def mk_bar_def)
  have f: "row_float wf_row ''sharpe_ratio'' = Inr (Fin 0)"
    "row_float wf_row ''total_return'' = Inr (Fin 0)"
    by (simp_all add: row_float_def wf_row_def)
  have a: "walk_forward sort_values_stable default_engine bars_wf EMACrossStrategy wf_grid (1 / 2)
     = Inr (Report \<lparr>train_period = (0, 3), test_period = (4, 7), best_params = [],
                     train_sharpe = Fin 0, train_return = Fin 0,
                     test_result = wf_test_result\<rparr>)"
    unfolding walk_forward_def wf_split Let_def wf_train_results
    by (simp add: wf_best_params wf_class(3) wf_run_test p f)
  have b: "res_signals wf_test_result = [Fin 0, Fin 0, Fin 0, Fin 0]"
    by (simp add: wf_test_result_def)
  have c2: "calculate (ema_cross_strategy (ema_cross_defaults\<lparr>rsi_period := PInt 2\<rparr>))
              [mk_bar 4 100, mk_bar 5 110, mk_bar 6 120, mk_bar 7 130]
            = Inr (mk_frame [100, 110, 120, 130] [0, 1, 1, 1])"
    using wf_calc_test(2) by (simp add: ema_cross_strategy_def)
  have c3: "calculate (ema_cross_strategy (ema_cross_defaults\<lparr>rsi_period := PInt 3\<rparr>))
              [mk_bar 4 100, mk_bar 5 110, mk_bar 6 120, mk_bar 7 130]
            = Inr (mk_frame [100, 110, 120, 130] [0, 0, 1, 1])"
    using wf_calc_test(3) by (simp add: ema_cross_strategy_def)
  show ?thesis
    unfolding wf_split wf_class
    using a b run_signals [OF c2, of default_engine] run_signals [OF c3, of default_engine]
    by (simp add: wf_split mk_frame_def signals_def)
qed

subsection \<open>C6: the division guards of the metrics\<close>




subsection \<open>C7: the drawdown bound\<close>

text \<open>
  C7: for a run with a positive initial capital on a frame with non-zero closes, the
  equity curve is a list of finite values \<open>es\<close>, the reported \<open>max_drawdown\<close> is the minimum
  over the bars \<open>t\<close> of \<open>(es[t] - running_max(es)[t]) / running_max(es)[t]\<close> (0 for the empty
  curve), it is at most 0, and it is 0 exactly when the equity curve is non-decreasing.
\<close>

theorem max_drawdown_bound:
  assumes "calculate strat bars = Inr df" and "\<forall>r\<in>set df. close r \<noteq> 0"
    and "0 < initial_capital eng"
  shows "\<exists>res es. run eng bars strat = Inr res \<and> res_equity_curve res = map Fin es
           \<and> max_drawdown (res_metrics res) = Fin (spec_max_drawdown es)
           \<and> spec_max_drawdown es \<le> 0
           \<and> (spec_max_drawdown es = 0 \<longleftrightarrow> sorted es)"
proof -
  define es where "es = map (spec_equity eng df) [0..<length df]"
  have eq: "equity_curve eng df = map Fin es"
    by (simp add: equity_curve_fin [OF assms(2)] es_def o_def)
  have hd: "0 < hd es \<or> es = []"
  proof (cases "df = []")
    case True
    then show ?thesis by (simp add: es_def)
  next
    case False
    then have "hd es = spec_equity eng df 0"
      by (simp add: es_def upt_conv_Cons del: upt_Suc)
    then show ?thesis using assms(3) by (simp add: spec_equity_def spec_strategy_return_def)
  qed
  have "\<exists>m. calculate_metrics (strategy_returns eng df) (map Fin es) (Some (signals df)) = Inr m
          \<and> max_drawdown m = Fin (spec_max_drawdown es)"
  proof (cases "df = []")
    case True
    then show ?thesis
      by (simp add: es_def calculate_metrics_empty dropna_def zero_metrics_def
          spec_max_drawdown_def)
  next
    case False
    have "dropna (strategy_returns eng df) = strategy_returns eng df"
      using dropna_fin [of "map (spec_strategy_return eng df) [0..<length df]"]
      by (simp add: strategy_returns_fin [OF assms(2)] o_def)
    then have "dropna (strategy_returns eng df) \<noteq> []"
      using False length_strategy_returns [of eng df] by (metis length_0_conv)
    moreover have "es \<noteq> []" using False by (simp add: es_def)
    ultimately show ?thesis using hd by (intro max_drawdown_fin) simp_all
  qed
  then obtain m where m: "calculate_metrics (strategy_returns eng df) (equity_curve eng df)
                             (Some (signals df)) = Inr m"
    and d: "max_drawdown m = Fin (spec_max_drawdown es)"
    using eq by auto
  show ?thesis
    using run_unfold [OF assms(1) m] eq d spec_max_drawdown_bound [OF hd] by auto
qed

theorem max_drawdown_bound_witness:
  "\<exists>res. run default_engine bars_updown hold_long = Inr res
         \<and> res_equity_curve res = map Fin [10000000, 11000000, 9900000]
         \<and> max_drawdown (res_metrics res) = Fin (- (1 / 10))"
proof -
  let ?df = "[\<lparr>close = 100, signal = 1\<rparr>, \<lparr>close = 110, signal = 1\<rparr>, \<lparr>close = 99, signal = 1\<rparr>]"
  have a: "calculate hold_long bars_updown = Inr ?df"
    by (simp add: hold_long_def bars_updown_def mk_bar_def)
  have b: "\<forall>r\<in>set ?df. close r \<noteq> 0" by simp
  have c: "0 < initial_capital default_engine" by (simp add: default_engine_def)
  have s: "strategy_returns default_engine ?df = [Fin 0, Fin (1 / 10), Fin (- (1 / 10))]"
    by (simp add: run_eval_defs default_engine_def)
  have e: "equity_curve default_engine ?df = map Fin [10000000, 11000000, 9900000]"
    unfolding equity_curve_def s by (simp add: cumprod_def default_engine_def)
  have u: "[0..<3] = [0, 1, 2]" by (simp add: upt_rec)
  have d: "spec_max_drawdown [10000000, 11000000, 9900000] = - (1 / 10)"
    by (simp add: spec_max_drawdown_def spec_drawdown_def spec_running_max_def u)
  obtain res es where r: "run default_engine bars_updown hold_long = Inr res"
    and q: "res_equity_curve res = map Fin es"
    and m: "max_drawdown (res_metrics res) = Fin (spec_max_drawdown es)"
    using max_drawdown_bound [OF a b c] by blast
  have "map Fin es = map Fin [10000000, 11000000, 9900000]"
    using run_equity [OF a r] q e by simp
  then have "es = [10000000, 11000000, 9900000]"
    by (auto simp: map_eq_Cons_conv)
  then show ?thesis using r q m d by simp
qed

subsection \<open>C8: counting trades\<close>

text \<open>
  C8: for an integer signal series handed to the metrics calculator together with a
  non-empty realized return series and a non-empty equity curve, \<open>total_trades\<close> is the
  number of bars \<open>t \<ge> 1\<close> with \<open>signal[t] \<noteq> signal[t-1]\<close>, whatever the direction of the
  change; and the \<open>total_trades\<close> of every run is that number for the signal column of the
  frame the strategy returned. For the signals \<open>[0, 0, 1, 1, -1, -1, 0]\<close> it is 3.
\<close>

theorem total_trades_counts_signal_changes:
  "(dropna returns \<noteq> [] \<and> equity \<noteq> [] \<longrightarrow>
      (\<exists>m. calculate_metrics returns equity (Some (map (\<lambda>i. Fin (real_of_int i)) s)) = Inr m
           \<and> total_trades m = int (length (filter (\<lambda>t. s ! t \<noteq> s ! (t - 1)) [1..<length s]))))
   \<and> (calculate strat bars = Inr df \<longrightarrow>
      (\<exists>res. run eng bars strat = Inr res
           \<and> total_trades (res_metrics res)
               = int (length (filter (\<lambda>t. signal (df ! t) \<noteq> signal (df ! (t - 1))) [1..<length df]))))"
proof (intro conjI impI)
  assume "dropna returns \<noteq> [] \<and> equity \<noteq> []"
  then show "\<exists>m. calculate_metrics returns equity (Some (map (\<lambda>i. Fin (real_of_int i)) s)) = Inr m
           \<and> total_trades m = int (length (filter (\<lambda>t. s ! t \<noteq> s ! (t - 1)) [1..<length s]))"
    by (simp add: calculate_metrics_nonempty [OF refl] count_trades_int)
next
  assume c: "calculate strat bars = Inr df"
  have "signals df = map (\<lambda>i. Fin (real_of_int i)) (map signal df)"
    by (simp add: signals_def)
  then have "count_trades (signals df)
        = int (length (filter (\<lambda>t. map signal df ! t \<noteq> map signal df ! (t - 1)) [1..<length (map signal df)]))"
    by (simp only: count_trades_int)
  also have "filter (\<lambda>t. map signal df ! t \<noteq> map signal df ! (t - 1)) [1..<length (map signal df)]
        = filter (\<lambda>t. signal (df ! t) \<noteq> signal (df ! (t - 1))) [1..<length df]"
    by (rule filter_cong) (auto simp: less_imp_diff_less)
  finally show "\<exists>res. run eng bars strat = Inr res
           \<and> total_trades (res_metrics res)
               = int (length (filter (\<lambda>t. signal (df ! t) \<noteq> signal (df ! (t - 1))) [1..<length df]))"
    using run_total_trades [OF c, of eng] by simp
qed

theorem total_trades_counts_signal_changes_witness:
  "(\<exists>m. calculate_metrics [Fin 0] [Fin 1]
          (Some (map (\<lambda>i. Fin (real_of_int i)) spec_signals)) = Inr m
       \<and> total_trades m = 3)
   \<and> (\<exists>res. run default_engine bars_seven spec_signal_strategy = Inr res
         \<and> total_trades (res_metrics res) = 3)"
proof -
  have a: "dropna [Fin 0] \<noteq> [] \<and> [Fin 1] \<noteq> []" by (simp add: dropna_def)
  have u: "[1..<7] = [1, 2, 3, 4, 5, 6]" by (simp add: upt_rec)
  have c: "calculate spec_signal_strategy bars_seven
           = Inr (mk_frame [100, 101, 102, 103, 104, 105, 106] spec_signals)"
    by (simp add: spec_signal_strategy_def bars_seven_def mk_bar_def)
  have l: "length (mk_frame [100, 101, 102, 103, 104, 105, 106] spec_signals) = 7"
    by (simp add: spec_signals_def)
  have f: "length (filter (\<lambda>t. spec_signals ! t \<noteq> spec_signals ! (t - 1)) [1..<length spec_signals]) = 3"
    by (simp add: spec_signals_def u)
  have g: "length (filter (\<lambda>t. signal (mk_frame [100, 101, 102, 103, 104, 105, 106] spec_signals ! t)
                \<noteq> signal (mk_frame [100, 101, 102, 103, 104, 105, 106] spec_signals ! (t - 1)))
             [1..<length (mk_frame [100, 101, 102, 103, 104, 105, 106] spec_signals)]) = 3"
    unfolding l u by (simp add: spec_signals_def mk_frame_def)
  show ?thesis
    using total_trades_counts_signal_changes
      [of "[Fin 0]" "[Fin 1]" spec_signals spec_signal_strategy bars_seven
          "mk_frame [100, 101, 102, 103, 104, 105, 106] spec_signals" default_engine]
      a c
    unfolding f g by simp
qed

subsection \<open>C9: the filters of the filtered crossover\<close>

text \<open>
  C9: when \<open>EMACrossStrategy.calculate\<close> returns a frame, it has one row per bar with the
  bar's close, and at every bar the signal is the base crossover signal, except that a base
  signal of +1 becomes 0 exactly when an enabled filter fails there (the trend filter passes
  when the close is above the trend average, the momentum filter when the oscillator is
  above the threshold). A disabled filter changes nothing, and a base signal of -1 is
  always kept.
\<close>

theorem ema_cross_filters:
  assumes "ema_cross_calculate self df = Inr out" and "t < length df"
  shows "\<exists>es el. ema (map bclose df) (short_period self) = Inr es
           \<and> ema (map bclose df) (long_period self) = Inr el
           \<and> length out = length df
           \<and> close (out ! t) = bclose (df ! t)
           \<and> signal (out ! t) =
               (if base_signal es el ! t = 1
                   \<and> ((truthy (use_trend_filter self) \<and> \<not> spec_trend_pass self df t)
                       \<or> (truthy (use_rsi_filter self) \<and> \<not> spec_momentum_pass self df t))
                then 0 else base_signal es el ! t)
           \<and> (base_signal es el ! t = - 1 \<longrightarrow> signal (out ! t) = - 1)"
proof -
  let ?cl = "map bclose df"
  from assms(1) obtain es el et rv where
    es: "ema ?cl (short_period self) = Inr es" and el: "ema ?cl (long_period self) = Inr el"
    and et: "(if truthy (use_trend_filter self) then ema ?cl (trend_period self) else Inr []) = Inr et"
    and rv: "(if truthy (use_rsi_filter self) then rsi ?cl (rsi_period self) else Inr []) = Inr rv"
    and r: "(let sig0 = base_signal es el;
                 sig1 = (if truthy (use_trend_filter self)
                         then suppress_long sig0 (uptrend ?cl et) else sig0)
             in if truthy (use_rsi_filter self)
                then ebind (threshold_of (rsi_threshold self)) (\<lambda>thr.
                       Inr (mk_frame ?cl (suppress_long sig1 (rsi_ok rv thr))))
                else Inr (mk_frame ?cl sig1)) = Inr out"
    unfolding ema_cross_calculate_def Let_def by (auto dest!: ebind_Inr)
  have les: "length es = length df" and lel: "length el = length df"
    using ema_length [OF es] ema_length [OF el] by simp_all
  define sig0 where "sig0 = base_signal es el"
  define sig1 where "sig1 = (if truthy (use_trend_filter self)
                         then suppress_long sig0 (uptrend ?cl et) else sig0)"
  have l0: "length sig0 = length df" by (simp add: sig0_def les lel)
  have s1: "length sig1 = length df \<and> sig1 ! t =
      (if sig0 ! t = 1 \<and> truthy (use_trend_filter self) \<and> \<not> spec_trend_pass self df t
       then 0 else sig0 ! t)"
  proof (cases "truthy (use_trend_filter self)")
    case True
    then have e: "ema ?cl (trend_period self) = Inr et" using et by simp
    then have "length et = length df" using ema_length by fastforce
    then show ?thesis using True assms(2) l0 e
      by (simp add: sig1_def suppress_long_nth uptrend_def spec_trend_pass_def)
  next
    case False
    then show ?thesis using l0 by (simp add: sig1_def)
  qed
  have out: "length out = length df \<and> close (out ! t) = bclose (df ! t) \<and> signal (out ! t) =
      (if sig1 ! t = 1 \<and> truthy (use_rsi_filter self) \<and> \<not> spec_momentum_pass self df t
       then 0 else sig1 ! t)"
  proof (cases "truthy (use_rsi_filter self)")
    case True
    then have e: "rsi ?cl (rsi_period self) = Inr rv" using rv by simp
    then have lr: "length rv = length df" using rsi_length by fastforce
    from r True obtain thr where thr: "threshold_of (rsi_threshold self) = Inr thr"
      and o: "out = mk_frame ?cl (suppress_long sig1 (rsi_ok rv thr))"
      unfolding Let_def sig1_def sig0_def by (auto dest!: ebind_Inr)
    show ?thesis using True assms(2) s1 lr e thr
      by (simp add: o mk_frame_nth suppress_long_nth rsi_ok_def spec_momentum_pass_def)
  next
    case False
    then have "out = mk_frame ?cl sig1" using r unfolding Let_def sig1_def sig0_def by simp
    then show ?thesis using False assms(2) s1 by (simp add: mk_frame_nth)
  qed
  define T where "T = (truthy (use_trend_filter self) \<and> \<not> spec_trend_pass self df t)"
  define R where "R = (truthy (use_rsi_filter self) \<and> \<not> spec_momentum_pass self df t)"
  have a1: "sig1 ! t = (if sig0 ! t = 1 \<and> T then 0 else sig0 ! t)"
    using s1 unfolding T_def by simp
  have a2: "signal (out ! t) = (if sig1 ! t = 1 \<and> R then 0 else sig1 ! t)"
    using out unfolding R_def by simp
  have f: "signal (out ! t) = (if sig0 ! t = 1 \<and> (T \<or> R) then 0 else sig0 ! t)"
    unfolding a2 a1 by (cases "sig0 ! t = 1") simp_all
  then have g: "sig0 ! t = - 1 \<longrightarrow> signal (out ! t) = - 1" by simp
  have "ema (map bclose df) (short_period self) = Inr es
           \<and> ema (map bclose df) (long_period self) = Inr el
           \<and> length out = length df
           \<and> close (out ! t) = bclose (df ! t)
           \<and> signal (out ! t) = (if sig0 ! t = 1 \<and> (T \<or> R) then 0 else sig0 ! t)
           \<and> (sig0 ! t = - 1 \<longrightarrow> signal (out ! t) = - 1)"
    using es el out f g by blast
  then show ?thesis unfolding sig0_def T_def R_def by blast
qed

theorem ema_cross_filters_witness:
  "ema_cross_calculate ema_cross_defaults bars_rise = Inr (mk_frame [100, 110, 120, 130] [0, 0, 0, 0])
   \<and> (\<exists>es el. ema (map bclose bars_rise) (short_period ema_cross_defaults) = Inr es
          \<and> ema (map bclose bars_rise) (long_period ema_cross_defaults) = Inr el
          \<and> base_signal es el ! 1 = 1
          \<and> spec_trend_pass ema_cross_defaults bars_rise 1
          \<and> \<not> spec_momentum_pass ema_cross_defaults bars_rise 1
          \<and> signal (mk_frame [100, 110, 120, 130] [0, 0, 0, 0] ! 1) = 0)"
proof -
  have t: "(1::nat) < length bars_rise" by (simp add: bars_rise_def)
  obtain es el where
    es: "ema (map bclose bars_rise) (short_period ema_cross_defaults) = Inr es"
    and el: "ema (map bclose bars_rise) (long_period ema_cross_defaults) = Inr el"
    and s: "signal (mk_frame [100, 110, 120, 130] [0, 0, 0, 0] ! 1) =
               (if base_signal es el ! 1 = 1
                   \<and> ((truthy (use_trend_filter ema_cross_defaults) \<and> \<not> spec_trend_pass ema_cross_defaults bars_rise 1)
                       \<or> (truthy (use_rsi_filter ema_cross_defaults) \<and> \<not> spec_momentum_pass ema_cross_defaults bars_rise 1))
                then 0 else base_signal es el ! 1)"
    using ema_cross_filters [OF calc_rise_default t] by blast
  have "es = [100, 310 / 3, 980 / 9, 3130 / 27]"
    using es by (simp add: closes_rise ema_cross_defaults_def ema_rise_5)
  moreover have "el = [100, 2120 / 21, 45320 / 441, 975740 / 9261]"
    using el by (simp add: closes_rise ema_cross_defaults_def ema_rise_20)
  ultimately have b: "base_signal es el ! 1 = 1" by (simp add: base_signal_def)
  have p: "spec_trend_pass ema_cross_defaults bars_rise 1"
    by (simp add: spec_trend_pass_def closes_rise ema_cross_defaults_def ema_rise_60)
       (simp add: bars_rise_def mk_bar_def)
  have m: "\<not> spec_momentum_pass ema_cross_defaults bars_rise 1"
    by (simp add: spec_momentum_pass_def closes_rise ema_cross_defaults_def rsi_rise_14 fgt_def)
  have u: "truthy (use_rsi_filter ema_cross_defaults)" by (simp add: ema_cross_defaults_def)
  have z: "signal (mk_frame [100, 110, 120, 130] [0, 0, 0, 0] ! 1) = 0"
    unfolding s using b m u by simp
  show ?thesis using calc_rise_default es el b p m z by blast
qed

subsection \<open>C10: the profit factor of an all-zero return series\<close>

text \<open>
  C10: when the realized return series is non-empty and every return is exactly zero, the
  metrics calculator reports \<open>profit_factor = +infinity\<close>, while the total return, the
  annual return, the Sharpe ratio, the win rate and the average trade return are all 0.
  For a run whose signal is 0 at every bar, lemma \<open>run_zero_signals\<close> gives the whole
  record: the maximum drawdown and the number of trades are 0 as well.
\<close>

theorem zero_returns_profit_factor_inf:
  assumes "dropna returns \<noteq> []" and "\<forall>r\<in>set (dropna returns). r = Fin 0" and "equity \<noteq> []"
  shows "\<exists>m. calculate_metrics returns equity sigs = Inr m
           \<and> profit_factor m = PInf \<and> total_return m = Fin 0 \<and> annual_return m = Fin 0
           \<and> sharpe_ratio m = Fin 0 \<and> win_rate m = Fin 0 \<and> avg_trade_return m = Fin 0"
proof -
  define n where "n = length (dropna returns)"
  have rs: "dropna returns = replicate n (Fin 0)"
    unfolding n_def by (rule all_zero_list [OF assms(2)])
  have ne: "replicate n (Fin 0) \<noteq> []" using assms(1) rs by simp
  show ?thesis
    unfolding calculate_metrics_nonempty [OF rs ne assms(3)]
    using volatility_all_zero [of n]
    by (simp add: fprod_replicate_one fsub_def fgt_def fne_def list_ex_iff)
qed

theorem zero_returns_profit_factor_inf_witness:
  "\<exists>m. calculate_metrics [NaN, Fin 0, Fin 0] [Fin 5, Fin 5, Fin 5] None = Inr m
       \<and> profit_factor m = PInf \<and> sharpe_ratio m = Fin 0"
proof -
  have a: "dropna [NaN, Fin 0, Fin 0] \<noteq> []" by (simp add: dropna_def)
  have b: "\<forall>r\<in>set (dropna [NaN, Fin 0, Fin 0]). r = Fin 0" by (simp add: dropna_def)
  have c: "[Fin 5, Fin 5, Fin 5] \<noteq> []" by simp
  show ?thesis using zero_returns_profit_factor_inf [OF a b c, of None] by blast
qed

end
